theory Spec2Isabelle
  imports Complex_Main "HOL-Library.Word" "HOL-Library.Signed_Division" "HOL-Library.Log_Nat"
begin

section \<open>Data model of the performance monitor\<close>

text \<open>
  The embedding follows \<^verbatim>\<open>include/types.hpp\<close>, \<^verbatim>\<open>include/performance_monitor.hpp\<close>
  and \<^verbatim>\<open>src/utils/performance_monitor.cpp\<close>. A \<^verbatim>\<open>uint64_t\<close> is a 64-bit word, so that
  \<^verbatim>\<open>fetch_add\<close> and the subtractions of the CPU sampler wrap around as they do in C++.
  A \<^verbatim>\<open>double\<close> is the real number that a finite double stands for; infinities and NaN
  have no value in the model, so the statements about sums assume that the running sum
  stays below \<open>2^1024\<close> in magnitude and that the 64-bit count has not wrapped to 0 (a
  division by zero is 0 here). Comparisons and stores of doubles are exact. The
  additions, the conversion of the count and the division of \<^verbatim>\<open>recordLatency\<close> round to
  the nearest double, as below. An \<^verbatim>\<open>std::atomic\<close> field is the value it holds; every
  operation below is one call running to completion on its own.
\<close>

type_synonym uint64_t = "64 word"
type_synonym double = real

section \<open>Double arithmetic\<close>

text \<open>
  Rounding of a real number to the nearest binary64 value, ties to even, with the
  exponent range unbounded above. \<open>two_to e\<close> is \<open>2^e\<close> for an integer \<open>e\<close>; \<open>binade x\<close>
  is the \<open>e\<close> with \<open>2^e \<le> x < 2^(e+1)\<close> for a positive \<open>x\<close>. A double in the binade \<open>e\<close>
  is a multiple of \<open>2^(e-52)\<close>; below \<open>2^-1022\<close> the doubles are the multiples of
  \<open>2^-1074\<close>.
\<close>

definition two_to :: "int \<Rightarrow> real" where
  "two_to e = (if 0 \<le> e then 2 ^ nat e else 1 / 2 ^ nat (- e))"

definition binade :: "real \<Rightarrow> int" where
  "binade x = (if 1 \<le> x then int (floorlog 2 (nat \<lfloor>x\<rfloor>)) - 1
               else - int (floorlog 2 (nat (\<lceil>1 / x\<rceil> - 1))))"

definition round_half_even :: "real \<Rightarrow> int" where
  "round_half_even x =
     (let f = \<lfloor>x\<rfloor>; r = x - of_int f
      in if r < 1 / 2 then f else if 1 / 2 < r then f + 1 else if even f then f else f + 1)"

definition round_double :: "real \<Rightarrow> double" where
  "round_double x =
     (if x = 0 then 0
      else (let e = max (binade \<bar>x\<bar>) (- 1022); q = two_to (e - 52)
            in sgn x * (of_int (round_half_even (\<bar>x\<bar> / q)) * q)))"

text \<open>The operations of \<^verbatim>\<open>recordLatency\<close> on doubles: \<^verbatim>\<open>+\<close>, \<^verbatim>\<open>/\<close> and the conversion of a \<^verbatim>\<open>uint64_t\<close>.\<close>

definition double_add :: "double \<Rightarrow> double \<Rightarrow> double" where
  "double_add a b = round_double (a + b)"

definition double_divide :: "double \<Rightarrow> double \<Rightarrow> double" where
  "double_divide a b = round_double (a / b)"

definition double_of_uint64 :: "uint64_t \<Rightarrow> double" where
  "double_of_uint64 c = round_double (real (unat c))"

text \<open>A real number that is a finite double: rounding leaves it as it is, and it is in range.\<close>

definition representable :: "real \<Rightarrow> bool" where
  "representable v \<longleftrightarrow> round_double v = v \<and> \<bar>v\<bar> < 2 ^ 1024"

text \<open>
  What a callback may throw: an exception derived from \<^verbatim>\<open>std::exception\<close> (with its
  \<^verbatim>\<open>what()\<close> text), or any other thrown object.
\<close>

datatype exn = StdException string | OtherException

text \<open>
  \<^verbatim>\<open>AlertCallback = std::function<void(const std::string&, const std::string&)>\<close>.
  A call either returns (\<open>None\<close>) or throws. A field of this type is \<open>None\<close> when the
  \<^verbatim>\<open>std::function\<close> is empty.
\<close>

type_synonym AlertCallback = "string \<Rightarrow> string \<Rightarrow> exn option"

datatype log_level = INFO | WARN | ERROR | PERFORMANCE

text \<open>
  A call of a logging macro: the level and the format string, in which the text of a
  string argument takes the place of its \<^verbatim>\<open>{}\<close>.
\<close>

type_synonym log_entry = "log_level \<times> string"

text \<open>The \<^verbatim>\<open>std::thread\<close> object behind \<^verbatim>\<open>monitoring_thread_\<close>: joinable until it is joined.\<close>

datatype thread = Thread (joinable: bool)

record AtomicPerformanceMetrics =
  messages_processed :: uint64_t
  opportunities_detected :: uint64_t
  trades_executed :: uint64_t
  average_latency_ms :: double
  max_latency_ms :: double
  memory_usage_mb :: double
  cpu_usage_percentage :: double

text \<open>
  The fields of \<^verbatim>\<open>class PerformanceMonitor\<close>, in the order of the header. Time points of
  \<^verbatim>\<open>steady_clock\<close> are integers counting nanoseconds. A field keeps its name
  without the trailing underscore, which a HOL name cannot end with. Two fields are not
  in the class: \<open>live_threads\<close> counts the background threads that were spawned and
  not yet joined, and \<open>log_calls\<close> collects the calls of the logging macros in order.
\<close>

record PerformanceMonitor =
  metrics :: AtomicPerformanceMetrics
  running :: bool
  monitoring_enabled :: bool
  monitoring_thread :: "thread option"
  monitoring_interval_ms :: int
  latency_count :: uint64_t
  latency_sum :: double
  latency_alert_callback :: "AlertCallback option"
  memory_alert_callback :: "AlertCallback option"
  cpu_alert_callback :: "AlertCallback option"
  latency_threshold_ms :: double
  memory_threshold_mb :: double
  cpu_threshold_percentage :: double
  last_cpu_check :: int
  last_cpu_time :: uint64_t
  live_threads :: nat
  log_calls :: "log_entry list"

text \<open>The member initialisers of both classes: the state of the singleton before any call.\<close>

definition new_metrics :: AtomicPerformanceMetrics where
  "new_metrics = \<lparr> messages_processed = 0, opportunities_detected = 0, trades_executed = 0,
     average_latency_ms = 0, max_latency_ms = 0, memory_usage_mb = 0,
     cpu_usage_percentage = 0 \<rparr>"

definition new_monitor :: PerformanceMonitor where
  "new_monitor = \<lparr> metrics = new_metrics, running = False, monitoring_enabled = False,
     monitoring_thread = None, monitoring_interval_ms = 1000,
     latency_count = 0, latency_sum = 0,
     latency_alert_callback = None, memory_alert_callback = None,
     cpu_alert_callback = None,
     latency_threshold_ms = 0, memory_threshold_mb = 0, cpu_threshold_percentage = 0,
     last_cpu_check = 0, last_cpu_time = 0, live_threads = 0, log_calls = [] \<rparr>"

section \<open>Recording metrics\<close>

definition recordMessageProcessed :: "PerformanceMonitor \<Rightarrow> PerformanceMonitor" where
  "recordMessageProcessed s =
     s\<lparr>metrics := (metrics s)\<lparr>messages_processed := messages_processed (metrics s) + 1\<rparr>\<rparr>"

definition recordOpportunityDetected :: "PerformanceMonitor \<Rightarrow> PerformanceMonitor" where
  "recordOpportunityDetected s =
     s\<lparr>metrics := (metrics s)\<lparr>opportunities_detected := opportunities_detected (metrics s) + 1\<rparr>\<rparr>"

definition recordTradeExecuted :: "PerformanceMonitor \<Rightarrow> PerformanceMonitor" where
  "recordTradeExecuted s =
     s\<lparr>metrics := (metrics s)\<lparr>trades_executed := trades_executed (metrics s) + 1\<rparr>\<rparr>"

text \<open>
  \<^verbatim>\<open>recordLatency\<close>: the compare-and-exchange loop stores \<open>latency_ms\<close> as the new maximum
  when it is greater than the stored one (with no other writer the exchange succeeds);
  then the count is incremented, the sum extended and the average recomputed as
  \<^verbatim>\<open>new_sum / count\<close>, the count converted to \<^verbatim>\<open>double\<close>. The addition, the conversion
  and the division each round to the nearest double.
\<close>

definition recordLatency :: "double \<Rightarrow> PerformanceMonitor \<Rightarrow> PerformanceMonitor" where
  "recordLatency latency_ms s =
     (let current_max = max_latency_ms (metrics s);
          m1 = (if latency_ms > current_max
                then (metrics s)\<lparr>max_latency_ms := latency_ms\<rparr> else metrics s);
          count = latency_count s + 1;
          current_sum = latency_sum s;
          new_sum = double_add current_sum latency_ms
      in s\<lparr>latency_count := count, latency_sum := new_sum,
            metrics := m1\<lparr>average_latency_ms :=
                          double_divide new_sum (double_of_uint64 count)\<rparr>\<rparr>)"

definition recordMemoryUsage :: "double \<Rightarrow> PerformanceMonitor \<Rightarrow> PerformanceMonitor" where
  "recordMemoryUsage memory_mb s = s\<lparr>metrics := (metrics s)\<lparr>memory_usage_mb := memory_mb\<rparr>\<rparr>"

definition recordCpuUsage :: "double \<Rightarrow> PerformanceMonitor \<Rightarrow> PerformanceMonitor" where
  "recordCpuUsage cpu_percentage s =
     s\<lparr>metrics := (metrics s)\<lparr>cpu_usage_percentage := cpu_percentage\<rparr>\<rparr>"

text \<open>\<^verbatim>\<open>AtomicPerformanceMetrics::reset\<close> and \<^verbatim>\<open>PerformanceMonitor::resetMetrics\<close>.\<close>

definition reset :: "AtomicPerformanceMetrics \<Rightarrow> AtomicPerformanceMetrics" where
  "reset m = m\<lparr>messages_processed := 0, opportunities_detected := 0, trades_executed := 0,
     average_latency_ms := 0, max_latency_ms := 0, memory_usage_mb := 0,
     cpu_usage_percentage := 0\<rparr>"

definition resetMetrics :: "PerformanceMonitor \<Rightarrow> PerformanceMonitor" where
  "resetMetrics s =
     s\<lparr>metrics := reset (metrics s), latency_count := 0, latency_sum := 0,
       log_calls := log_calls s @ [(INFO, ''Performance metrics reset'')]\<rparr>"

section \<open>Reading metrics\<close>

definition getMessagesProcessed :: "PerformanceMonitor \<Rightarrow> uint64_t" where
  "getMessagesProcessed s = messages_processed (metrics s)"

definition getOpportunitiesDetected :: "PerformanceMonitor \<Rightarrow> uint64_t" where
  "getOpportunitiesDetected s = opportunities_detected (metrics s)"

definition getTradesExecuted :: "PerformanceMonitor \<Rightarrow> uint64_t" where
  "getTradesExecuted s = trades_executed (metrics s)"

definition getAverageLatency :: "PerformanceMonitor \<Rightarrow> double" where
  "getAverageLatency s = average_latency_ms (metrics s)"

definition getMaxLatency :: "PerformanceMonitor \<Rightarrow> double" where
  "getMaxLatency s = max_latency_ms (metrics s)"

definition getMemoryUsage :: "PerformanceMonitor \<Rightarrow> double" where
  "getMemoryUsage s = memory_usage_mb (metrics s)"

definition getCpuUsage :: "PerformanceMonitor \<Rightarrow> double" where
  "getCpuUsage s = cpu_usage_percentage (metrics s)"

definition isLatencyWithinThreshold :: "double \<Rightarrow> PerformanceMonitor \<Rightarrow> bool" where
  "isLatencyWithinThreshold threshold_ms s \<longleftrightarrow> getAverageLatency s \<le> threshold_ms"

definition isMemoryWithinThreshold :: "double \<Rightarrow> PerformanceMonitor \<Rightarrow> bool" where
  "isMemoryWithinThreshold threshold_mb s \<longleftrightarrow> getMemoryUsage s \<le> threshold_mb"

definition isCpuWithinThreshold :: "double \<Rightarrow> PerformanceMonitor \<Rightarrow> bool" where
  "isCpuWithinThreshold threshold_percentage s \<longleftrightarrow> getCpuUsage s \<le> threshold_percentage"

text \<open>A sequence of \<^verbatim>\<open>recordLatency\<close> calls, first element first.\<close>

definition recordLatencies :: "double list \<Rightarrow> PerformanceMonitor \<Rightarrow> PerformanceMonitor" where
  "recordLatencies xs s = fold recordLatency xs s"

text \<open>An accumulator that is fresh or was just reset.\<close>

definition latency_cleared :: "PerformanceMonitor \<Rightarrow> bool" where
  "latency_cleared s \<longleftrightarrow>
     latency_count s = 0 \<and> latency_sum s = 0 \<and> max_latency_ms (metrics s) = 0
     \<and> average_latency_ms (metrics s) = 0"

text \<open>
  The sum of a sequence as \<^verbatim>\<open>recordLatency\<close> accumulates it: in call order, each addition
  rounded.
\<close>

definition double_sum :: "double list \<Rightarrow> double" where
  "double_sum xs = foldl double_add 0 xs"

text \<open>No addition of the run, started at the sum \<open>a\<close>, overflows the range of the doubles.\<close>

fun sum_stays_finite :: "double \<Rightarrow> double list \<Rightarrow> bool" where
  "sum_stays_finite a [] = True"
| "sum_stays_finite a (x # xs) =
     (\<bar>double_add a x\<bar> < 2 ^ 1024 \<and> sum_stays_finite (double_add a x) xs)"

text \<open>Every partial sum of the run, started at the sum \<open>a\<close>, is a double as it stands.\<close>

fun exactly_summable :: "real \<Rightarrow> real list \<Rightarrow> bool" where
  "exactly_summable a [] = True"
| "exactly_summable a (x # xs) = (representable (a + x) \<and> exactly_summable (a + x) xs)"

section \<open>Lifecycle\<close>

text \<open>
  \<^verbatim>\<open>initialize\<close> stores the interval and clears the CPU baseline; it sets no flag that a
  later call could test. \<open>now\<close> is the reading of \<^verbatim>\<open>steady_clock::now()\<close>.
  The log entry keeps the \<^verbatim>\<open>{}\<close> of the numeric argument.
\<close>

definition initialize :: "int \<Rightarrow> int \<Rightarrow> PerformanceMonitor \<Rightarrow> bool \<times> PerformanceMonitor" where
  "initialize interval_ms now s =
     (True, s\<lparr>monitoring_interval_ms := interval_ms, last_cpu_check := now, last_cpu_time := 0,
              log_calls := log_calls s @
                [(INFO, ''Performance monitor initialized with {}ms interval'')]\<rparr>)"

text \<open>
  The only way a lifecycle call can fail: assigning to \<^verbatim>\<open>monitoring_thread_\<close> destroys the
  \<^verbatim>\<open>std::thread\<close> it held, and destroying a joinable thread calls \<^verbatim>\<open>std::terminate\<close>.
\<close>

datatype failure = Terminate

text \<open>
  \<^verbatim>\<open>start\<close>: \<^verbatim>\<open>running_.exchange(true)\<close> returns the old flag. When it was set, the call
  logs a warning and returns. Otherwise the loop is enabled and a new thread is spawned.
\<close>

definition start :: "PerformanceMonitor \<Rightarrow> failure + PerformanceMonitor" where
  "start s =
     (if running s
      then Inr (s\<lparr>log_calls := log_calls s @ [(WARN, ''Performance monitor already running'')]\<rparr>)
      else
        (let s1 = s\<lparr>running := True, monitoring_enabled := True\<rparr>
         in case monitoring_thread s1 of
              Some (Thread True) \<Rightarrow> Inl Terminate
            | _ \<Rightarrow> Inr (s1\<lparr>monitoring_thread := Some (Thread True),
                           live_threads := live_threads s1 + 1,
                           log_calls := log_calls s1 @ [(INFO, ''Performance monitor started'')]\<rparr>)))"

text \<open>
  \<^verbatim>\<open>stop\<close>: \<^verbatim>\<open>running_.exchange(false)\<close> returns the old flag. When it was clear, the call
  returns at once. Otherwise the loop is disabled and the thread, if joinable, is joined:
  the join returns once the loop has seen the cleared flag, and the thread is gone.
\<close>

definition stop :: "PerformanceMonitor \<Rightarrow> PerformanceMonitor" where
  "stop s =
     (if \<not> running s then s
      else
        (let s1 = s\<lparr>running := False, monitoring_enabled := False\<rparr>;
             s2 = (case monitoring_thread s1 of
                     Some t \<Rightarrow>
                       if joinable t
                       then s1\<lparr>monitoring_thread := Some (Thread False),
                               live_threads := live_threads s1 - 1\<rparr>
                       else s1
                   | None \<Rightarrow> s1)
         in s2\<lparr>log_calls := log_calls s2 @ [(INFO, ''Performance monitor stopped'')]\<rparr>))"

datatype lifecycle_call = Start | Stop

text \<open>A sequence of lifecycle calls made one after the other; a failure ends it.\<close>

fun lifecycle :: "lifecycle_call list \<Rightarrow> PerformanceMonitor \<Rightarrow> failure + PerformanceMonitor" where
  "lifecycle [] s = Inr s"
| "lifecycle (Start # cs) s = (case start s of Inl f \<Rightarrow> Inl f | Inr s' \<Rightarrow> lifecycle cs s')"
| "lifecycle (Stop # cs) s = lifecycle cs (stop s)"

section \<open>Alert registration\<close>

definition setLatencyAlertCallback ::
  "AlertCallback option \<Rightarrow> double \<Rightarrow> PerformanceMonitor \<Rightarrow> PerformanceMonitor" where
  "setLatencyAlertCallback callback threshold_ms s =
     s\<lparr>latency_alert_callback := callback, latency_threshold_ms := threshold_ms\<rparr>"

definition setMemoryAlertCallback ::
  "AlertCallback option \<Rightarrow> double \<Rightarrow> PerformanceMonitor \<Rightarrow> PerformanceMonitor" where
  "setMemoryAlertCallback callback threshold_mb s =
     s\<lparr>memory_alert_callback := callback, memory_threshold_mb := threshold_mb\<rparr>"

definition setCpuAlertCallback ::
  "AlertCallback option \<Rightarrow> double \<Rightarrow> PerformanceMonitor \<Rightarrow> PerformanceMonitor" where
  "setCpuAlertCallback callback threshold_percentage s =
     s\<lparr>cpu_alert_callback := callback, cpu_threshold_percentage := threshold_percentage\<rparr>"

section \<open>System metrics\<close>

text \<open>\<^verbatim>\<open>getCurrentMemoryUsage\<close>: \<^verbatim>\<open>ru_maxrss / 1024.0\<close>, from the reading of \<^verbatim>\<open>getrusage\<close>.\<close>

definition getCurrentMemoryUsage :: "int \<Rightarrow> double" where
  "getCurrentMemoryUsage ru_maxrss = double_divide (round_double (real_of_int ru_maxrss)) 1024"

text \<open>The eight numbers parsed from the first line of \<^verbatim>\<open>/proc/stat\<close>.\<close>

record proc_stat =
  user :: uint64_t
  nice :: uint64_t
  system :: uint64_t
  idle :: uint64_t
  iowait :: uint64_t
  irq :: uint64_t
  softirq :: uint64_t
  steal :: uint64_t

text \<open>
  \<^verbatim>\<open>getCurrentCpuUsage\<close>. \<open>stat_file\<close> is \<open>None\<close> when \<^verbatim>\<open>/proc/stat\<close> cannot be opened,
  \<open>current_time\<close> is the reading of the steady clock, and \<open>time_diff\<close> is the difference
  cast to milliseconds, which truncates. The only baseline the class keeps is
  \<^verbatim>\<open>last_cpu_time_\<close>, the previous total. All three exits past the open check store the
  new total and the new time. The two conversions and the arithmetic are written without
  rounding: the two operands of the division are the same number whenever it is
  evaluated, so the quotient is 1 and the result 0 in double arithmetic as well.
\<close>

definition getCurrentCpuUsage ::
  "proc_stat option \<Rightarrow> int \<Rightarrow> PerformanceMonitor \<Rightarrow> double \<times> PerformanceMonitor" where
  "getCurrentCpuUsage stat_file current_time s =
     (case stat_file of
        None \<Rightarrow> (0, s)
      | Some l \<Rightarrow>
          (let total_time = user l + nice l + system l + idle l + iowait l + irq l
                            + softirq l + steal l;
               idle_time = idle l + iowait l;
               time_diff = (current_time - last_cpu_check s) sdiv 1000000;
               s' = s\<lparr>last_cpu_time := total_time, last_cpu_check := current_time\<rparr>
           in if time_diff > 0 \<and> last_cpu_time s > 0
              then
                (let total_diff = total_time - last_cpu_time s;
                     idle_diff = idle_time - (last_cpu_time s - (total_time - idle_time))
                 in if total_diff > 0
                    then (100 * (1 - real (unat idle_diff) / real (unat total_diff)), s')
                    else (0, s'))
              else (0, s')))"

section \<open>Alert evaluation\<close>

text \<open>
  The effect of an alert pass is the sequence of callback invocations it makes, each with
  the two strings it passes, and the exception that leaves it, if any. \<^verbatim>\<open>checkAlerts\<close>
  has no handler of its own, so an exception thrown by a callback ends the pass there.
\<close>

type_synonym alert_calls = "(string \<times> string) list"
type_synonym alert_result = "alert_calls \<times> exn option"

definition no_call :: alert_result where
  "no_call = ([], None)"

definition invoke :: "AlertCallback \<Rightarrow> string \<Rightarrow> string \<Rightarrow> alert_result" where
  "invoke cb kind message = ([(kind, message)], cb kind message)"

definition and_then :: "alert_result \<Rightarrow> alert_result \<Rightarrow> alert_result" where
  "and_then a b = (case snd a of Some e \<Rightarrow> a | None \<Rightarrow> (fst a @ fst b, snd b))"

text \<open>
  The message each block of \<^verbatim>\<open>checkAlerts\<close> builds. \<open>to_string\<close> stands for
  \<^verbatim>\<open>std::to_string\<close> on a \<^verbatim>\<open>double\<close>, whose digits the model does not compute.
\<close>

definition latency_alert_message :: "(double \<Rightarrow> string) \<Rightarrow> PerformanceMonitor \<Rightarrow> string" where
  "latency_alert_message to_string s =
     ''Average latency '' @ to_string (getAverageLatency s) @ ''ms exceeds threshold ''
     @ to_string (latency_threshold_ms s) @ ''ms''"

definition memory_alert_message :: "(double \<Rightarrow> string) \<Rightarrow> PerformanceMonitor \<Rightarrow> string" where
  "memory_alert_message to_string s =
     ''Memory usage '' @ to_string (getMemoryUsage s) @ ''MB exceeds threshold ''
     @ to_string (memory_threshold_mb s) @ ''MB''"

definition cpu_alert_message :: "(double \<Rightarrow> string) \<Rightarrow> PerformanceMonitor \<Rightarrow> string" where
  "cpu_alert_message to_string s =
     ''CPU usage '' @ to_string (getCpuUsage s) @ ''% exceeds threshold ''
     @ to_string (cpu_threshold_percentage s) @ ''%''"

text \<open>The three blocks of \<^verbatim>\<open>checkAlerts\<close>, each building its message in place.\<close>

definition checkLatencyAlert :: "(double \<Rightarrow> string) \<Rightarrow> PerformanceMonitor \<Rightarrow> alert_result" where
  "checkLatencyAlert to_string s =
     (case latency_alert_callback s of
        Some cb \<Rightarrow>
          if latency_threshold_ms s > 0
          then (let current_latency = getAverageLatency s
                in if current_latency > latency_threshold_ms s
                   then invoke cb ''LATENCY_ALERT''
                          (''Average latency '' @ to_string current_latency
                           @ ''ms exceeds threshold '' @ to_string (latency_threshold_ms s)
                           @ ''ms'')
                   else no_call)
          else no_call
      | None \<Rightarrow> no_call)"

definition checkMemoryAlert :: "(double \<Rightarrow> string) \<Rightarrow> PerformanceMonitor \<Rightarrow> alert_result" where
  "checkMemoryAlert to_string s =
     (case memory_alert_callback s of
        Some cb \<Rightarrow>
          if memory_threshold_mb s > 0
          then (let current_memory = getMemoryUsage s
                in if current_memory > memory_threshold_mb s
                   then invoke cb ''MEMORY_ALERT''
                          (''Memory usage '' @ to_string current_memory
                           @ ''MB exceeds threshold '' @ to_string (memory_threshold_mb s)
                           @ ''MB'')
                   else no_call)
          else no_call
      | None \<Rightarrow> no_call)"

definition checkCpuAlert :: "(double \<Rightarrow> string) \<Rightarrow> PerformanceMonitor \<Rightarrow> alert_result" where
  "checkCpuAlert to_string s =
     (case cpu_alert_callback s of
        Some cb \<Rightarrow>
          if cpu_threshold_percentage s > 0
          then (let current_cpu = getCpuUsage s
                in if current_cpu > cpu_threshold_percentage s
                   then invoke cb ''CPU_ALERT''
                          (''CPU usage '' @ to_string current_cpu
                           @ ''% exceeds threshold '' @ to_string (cpu_threshold_percentage s)
                           @ ''%'')
                   else no_call)
          else no_call
      | None \<Rightarrow> no_call)"

definition checkAlerts :: "(double \<Rightarrow> string) \<Rightarrow> PerformanceMonitor \<Rightarrow> alert_result" where
  "checkAlerts to_string s =
     and_then (checkLatencyAlert to_string s)
       (and_then (checkMemoryAlert to_string s) (checkCpuAlert to_string s))"

text \<open>The invocations of one kind made by a pass, and the exception that left it.\<close>

definition alerts_of :: "string \<Rightarrow> alert_result \<Rightarrow> alert_calls" where
  "alerts_of kind r = filter (\<lambda>c. fst c = kind) (fst r)"

definition thrown :: "alert_result \<Rightarrow> exn option" where
  "thrown r = snd r"

section \<open>The monitoring loop\<close>

text \<open>What one iteration reads from outside the class.\<close>

record tick =
  ru_maxrss :: int
  stat_file :: "proc_stat option"
  now :: int

text \<open>
  The body of the \<^verbatim>\<open>while\<close> loop with its \<^verbatim>\<open>try\<close> block. The handler catches
  \<^verbatim>\<open>const std::exception&\<close> only: such an exception is logged and the iteration ends
  normally, without the status line and without the sleep; any other exception leaves the
  thread function.
\<close>

definition monitoringIteration ::
  "(double \<Rightarrow> string) \<Rightarrow> tick \<Rightarrow> PerformanceMonitor \<Rightarrow> exn + PerformanceMonitor" where
  "monitoringIteration to_string t s =
     (let s1 = recordMemoryUsage (getCurrentMemoryUsage (ru_maxrss t)) s;
          c = getCurrentCpuUsage (stat_file t) (now t) s1;
          s2 = recordCpuUsage (fst c) (snd c)
      in case thrown (checkAlerts to_string s2) of
           None \<Rightarrow>
             Inr (s2\<lparr>log_calls := log_calls s2 @
               [(PERFORMANCE, ''Messages: {}, Opportunities: {}, Trades: {}, ''
                   @ ''Avg Latency: {:.2f}ms, Max Latency: {:.2f}ms, ''
                   @ ''Memory: {:.2f}MB, CPU: {:.2f}%'')]\<rparr>)
         | Some (StdException what) \<Rightarrow>
             Inr (s2\<lparr>log_calls := log_calls s2 @
               [(ERROR, ''Error in performance monitoring loop: '' @ what)]\<rparr>)
         | Some OtherException \<Rightarrow> Inl OtherException)"

text \<open>The state in which an iteration calls \<^verbatim>\<open>checkAlerts\<close>: both gauges are written.\<close>

definition sampled :: "tick \<Rightarrow> PerformanceMonitor \<Rightarrow> PerformanceMonitor" where
  "sampled t s =
     (let s1 = recordMemoryUsage (getCurrentMemoryUsage (ru_maxrss t)) s;
          c = getCurrentCpuUsage (stat_file t) (now t) s1
      in recordCpuUsage (fst c) (snd c))"

text \<open>
  How a run of the loop over finitely many iterations ends: the loop saw
  \<^verbatim>\<open>monitoring_enabled_\<close> cleared and returned, or it is still going after the last
  iteration given, or an exception left it.
\<close>

datatype loop_result = Exited PerformanceMonitor | Looping PerformanceMonitor | Died exn

fun monitoringLoop :: "(double \<Rightarrow> string) \<Rightarrow> tick list \<Rightarrow> PerformanceMonitor \<Rightarrow> loop_result" where
  "monitoringLoop to_string [] s = (if monitoring_enabled s then Looping s else Exited s)"
| "monitoringLoop to_string (t # ts) s =
     (if monitoring_enabled s
      then (case monitoringIteration to_string t s of
              Inl e \<Rightarrow> Died e
            | Inr s' \<Rightarrow> monitoringLoop to_string ts s')
      else Exited s)"

section \<open>Invariants and test data\<close>

text \<open>
  What the lifecycle calls keep true: while running, the loop is enabled and exactly one
  thread exists, held joinable by \<^verbatim>\<open>monitoring_thread_\<close>; while not running, the loop is
  disabled and no thread exists.
\<close>

definition lifecycle_inv :: "PerformanceMonitor \<Rightarrow> bool" where
  "lifecycle_inv s \<longleftrightarrow>
     (if running s
      then monitoring_enabled s \<and> monitoring_thread s = Some (Thread True) \<and> live_threads s = 1
      else \<not> monitoring_enabled s \<and> monitoring_thread s \<noteq> Some (Thread True)
           \<and> live_threads s = 0)"

text \<open>Every exception a registered callback can throw derives from \<^verbatim>\<open>std::exception\<close>.\<close>

definition throws_only_std :: "PerformanceMonitor \<Rightarrow> bool" where
  "throws_only_std s \<longleftrightarrow>
     (\<forall>cb kind message.
        (latency_alert_callback s = Some cb \<or> memory_alert_callback s = Some cb
         \<or> cpu_alert_callback s = Some cb) \<longrightarrow> cb kind message \<noteq> Some OtherException)"

text \<open>A callback that returns, one that throws, and a \<^verbatim>\<open>to_string\<close> that writes no digits.\<close>

definition returning_callback :: AlertCallback where
  "returning_callback kind message = None"

definition throwing_callback :: AlertCallback where
  "throwing_callback kind message = Some (StdException ''callback failed'')"

definition no_digits :: "double \<Rightarrow> string" where
  "no_digits x = []"

text \<open>
  Two readings of \<^verbatim>\<open>/proc/stat\<close>: idle 100 of total 1000, then idle 150 of total 1500.
\<close>

definition synthetic_sample1 :: proc_stat where
  "synthetic_sample1 = \<lparr> user = 900, nice = 0, system = 0, idle = 100, iowait = 0, irq = 0,
     softirq = 0, steal = 0 \<rparr>"

definition synthetic_sample2 :: proc_stat where
  "synthetic_sample2 = \<lparr> user = 1350, nice = 0, system = 0, idle = 150, iowait = 0, irq = 0,
     softirq = 0, steal = 0 \<rparr>"

text \<open>
  A monitor whose average latency is at its threshold (50 of 50) while memory (150 of 100)
  and CPU (90 of 80) are above theirs, with callbacks that return.
\<close>

definition breached_monitor :: PerformanceMonitor where
  "breached_monitor =
     setLatencyAlertCallback (Some returning_callback) 50
       (setMemoryAlertCallback (Some returning_callback) 100
         (setCpuAlertCallback (Some returning_callback) 80
           (recordLatency 50 (recordMemoryUsage 150 (recordCpuUsage 90 new_monitor)))))"

text \<open>A monitor whose three values are exactly at their thresholds.\<close>

definition at_threshold_monitor :: PerformanceMonitor where
  "at_threshold_monitor =
     setLatencyAlertCallback (Some returning_callback) 50
       (setMemoryAlertCallback (Some returning_callback) 100
         (setCpuAlertCallback (Some returning_callback) 80
           (recordLatency 50 (recordMemoryUsage 100 (recordCpuUsage 80 new_monitor)))))"

text \<open>
  A monitor with the loop enabled whose latency callback throws, with the average latency
  (60) and the memory usage (150) above their thresholds (50 and 100).
\<close>

definition throwing_monitor :: PerformanceMonitor where
  "throwing_monitor =
     (setLatencyAlertCallback (Some throwing_callback) 50
       (setMemoryAlertCallback (Some returning_callback) 100
         (recordLatency 60 (recordMemoryUsage 150 new_monitor))))\<lparr>monitoring_enabled := True\<rparr>"

text \<open>
  A monitor with the loop enabled whose memory callback throws, with the memory usage
  (150) and the CPU usage (90) above their thresholds (100 and 80) and no latency rule.
\<close>

definition throwing_memory_monitor :: PerformanceMonitor where
  "throwing_memory_monitor =
     (setMemoryAlertCallback (Some throwing_callback) 100
       (setCpuAlertCallback (Some returning_callback) 80
         (recordMemoryUsage 150 (recordCpuUsage 90 new_monitor))))\<lparr>monitoring_enabled := True\<rparr>"

text \<open>
  A monitor with the loop enabled whose CPU callback throws, with the CPU usage (90) above
  its threshold (80) and no other rule.
\<close>

definition throwing_cpu_monitor :: PerformanceMonitor where
  "throwing_cpu_monitor =
     (setCpuAlertCallback (Some throwing_callback) 80
       (recordCpuUsage 90 new_monitor))\<lparr>monitoring_enabled := True\<rparr>"

text \<open>The double nearest to one tenth, \<^verbatim>\<open>0x1.999999999999ap-4\<close>.\<close>

definition tenth :: double where
  "tenth = 3602879701896397 / 36028797018963968"

text \<open>An iteration that reads 150 MB of memory and cannot open \<^verbatim>\<open>/proc/stat\<close>.\<close>

definition idle_tick :: tick where
  "idle_tick = \<lparr> ru_maxrss = 153600, stat_file = None, now = 0 \<rparr>"

section \<open>Rounding to the nearest double\<close>

lemma two_to_pos: "0 < two_to e"
  by (simp add: two_to_def)


lemma round_half_even_error: "\<bar>of_int (round_half_even y) - y\<bar> \<le> 1 / 2"
proof -
  have "of_int \<lfloor>y\<rfloor> \<le> y" "y < of_int \<lfloor>y\<rfloor> + 1" by linarith+
  then show ?thesis
    by (auto simp: round_half_even_def Let_def abs_le_iff)
qed


text \<open>The rounded value is a multiple of the quantum and at most half a quantum away.\<close>

lemma round_double_error:
  "\<bar>round_double x - x\<bar> \<le> two_to (max (binade \<bar>x\<bar>) (- 1022) - 52) / 2"
proof (cases "x = 0")
  case True
  then show ?thesis using two_to_pos [of "max (binade \<bar>x\<bar>) (- 1022) - 52"]
    by (simp add: round_double_def)
next
  case False
  define q where "q = two_to (max (binade \<bar>x\<bar>) (- 1022) - 52)"
  have q: "0 < q" unfolding q_def by (rule two_to_pos)
  define n where "n = round_half_even (\<bar>x\<bar> / q)"
  have rd: "round_double x = sgn x * (of_int n * q)"
    using False by (simp add: round_double_def Let_def q_def n_def)
  have "\<bar>of_int n - \<bar>x\<bar> / q\<bar> \<le> 1 / 2" unfolding n_def by (rule round_half_even_error)
  then have "\<bar>of_int n - \<bar>x\<bar> / q\<bar> * q \<le> 1 / 2 * q" using q by (simp only: mult_le_cancel_right_pos)
  moreover have "\<bar>of_int n - \<bar>x\<bar> / q\<bar> * q = \<bar>of_int n * q - \<bar>x\<bar>\<bar>"
  proof -
    have "\<bar>of_int n - \<bar>x\<bar> / q\<bar> * q = \<bar>(of_int n - \<bar>x\<bar> / q) * q\<bar>"
      using q by (simp add: abs_mult)
    also have "(of_int n - \<bar>x\<bar> / q) * q = of_int n * q - \<bar>x\<bar>"
      using q by (simp add: algebra_simps)
    finally show ?thesis .
  qed
  moreover have "\<bar>sgn x * (of_int n * q) - x\<bar> = \<bar>of_int n * q - \<bar>x\<bar>\<bar>"
  proof (cases "0 < x")
    case True
    then show ?thesis by simp
  next
    case neg: False
    with False have "x < 0" by simp
    then have "sgn x * (of_int n * q) - x = - (of_int n * q - \<bar>x\<bar>)"
      by simp
    then show ?thesis by (simp only: abs_minus)
  qed
  ultimately show ?thesis by (simp add: rd q_def)
qed

text \<open>Some values of the rounding, among them the doubles written 0.1, 0.2 and 0.3.\<close>

lemma round_double_examples:
  "round_double 30 = 30"
  "round_double (65 / 4) = 65 / 4"
  "round_double (1 / 10) = tenth"
  "round_double (2 / 10) = 2 * tenth"
  "round_double (3 / 10) = 5404319552844595 / 18014398509481984"
  "round_double (tenth + 2 * tenth) = 5404319552844596 / 18014398509481984"
  by code_simp+

text \<open>\<open>binade\<close> finds the power of two at or below a positive number.\<close>

lemma binade_bounds:
  assumes "0 < x"
  shows "two_to (binade x) \<le> x \<and> x < two_to (binade x + 1)"
proof (cases "1 \<le> x")
  case True
  define n where "n = nat \<lfloor>x\<rfloor>"
  define k where "k = floorlog 2 n"
  have n: "0 < n" "real n \<le> x" "x < real n + 1"
    using True unfolding n_def by simp_all
  from floorlog_bounds [of n 2] n(1) have b: "2 ^ (k - 1) \<le> n" "n < 2 ^ k"
    unfolding k_def by simp_all
  have k: "0 < k" using b(2) n(1) by (cases k) simp_all
  have bin: "binade x = int k - 1"
    using True by (simp add: binade_def k_def n_def)
  have lo: "two_to (binade x) = 2 ^ (k - 1)"
    using k by (simp add: bin two_to_def nat_diff_distrib')
  have hi: "two_to (binade x + 1) = 2 ^ k"
    by (simp add: bin two_to_def)
  have p1: "real (2 ^ (k - 1)) = 2 ^ (k - 1)" and p2: "real (2 ^ k) = 2 ^ k"
    by simp_all
  have "real (2 ^ (k - 1)) \<le> real n" using b(1) by (rule of_nat_mono)
  with n(2) have "real (2 ^ (k - 1)) \<le> x" by linarith
  then have 1: "(2::real) ^ (k - 1) \<le> x" by (simp only: p1)
  have "n + 1 \<le> 2 ^ k" using b(2) by simp
  then have "real (n + 1) \<le> real (2 ^ k)" by (rule of_nat_mono)
  moreover have "real (n + 1) = real n + 1" by simp
  ultimately have "x < real (2 ^ k)" using n(3) by linarith
  then have 2: "x < (2::real) ^ k" by (simp only: p2)
  from 1 2 show ?thesis by (simp add: lo hi)
next
  case False
  with assms have x: "0 < x" "x < 1" by simp_all
  define y where "y = 1 / x"
  have y: "1 < y" using x by (simp add: y_def)
  define n where "n = nat (\<lceil>y\<rceil> - 1)"
  define k where "k = floorlog 2 n"
  have c: "1 < \<lceil>y\<rceil>" using y by (simp add: less_ceiling_iff)
  have rn: "real n = of_int \<lceil>y\<rceil> - 1"
    using c unfolding n_def by simp
  have n: "0 < n" "real n < y" "y \<le> real n + 1"
  proof -
    show "0 < n" using c unfolding n_def by simp
    show "real n < y" unfolding rn by linarith
    show "y \<le> real n + 1" unfolding rn by linarith
  qed
  from floorlog_bounds [of n 2] n(1) have b: "2 ^ (k - 1) \<le> n" "n < 2 ^ k"
    unfolding k_def by simp_all
  have k: "0 < k" using b(2) n(1) by (cases k) simp_all
  have bin: "binade x = - int k"
    using False by (simp add: binade_def k_def n_def y_def)
  have lo: "two_to (binade x) = 1 / 2 ^ k"
    using k by (simp add: bin two_to_def)
  have hi: "two_to (binade x + 1) = 1 / 2 ^ (k - 1)"
  proof (cases "k = 1")
    case True
    then show ?thesis by (simp add: bin two_to_def)
  next
    case False
    with k have "1 < k" by simp
    then have "nat (int k - 1) = k - 1" by simp
    with \<open>1 < k\<close> show ?thesis by (simp add: bin two_to_def)
  qed
  have p1: "real (2 ^ (k - 1)) = 2 ^ (k - 1)" and p2: "real (2 ^ k) = 2 ^ k"
    by simp_all
  have "real (2 ^ (k - 1)) \<le> real n" using b(1) by (rule of_nat_mono)
  with n(2) have "real (2 ^ (k - 1)) < y" by linarith
  then have 1: "(2::real) ^ (k - 1) < y" by (simp only: p1)
  have "n + 1 \<le> 2 ^ k" using b(2) by simp
  then have "real (n + 1) \<le> real (2 ^ k)" by (rule of_nat_mono)
  moreover have "real (n + 1) = real n + 1" by simp
  ultimately have "y \<le> real (2 ^ k)" using n(3) by linarith
  then have 2: "y \<le> (2::real) ^ k" by (simp only: p2)
  have "1 / 2 ^ k \<le> x"
    using 2 x(1) by (simp add: y_def field_simps)
  moreover have "x < 1 / 2 ^ (k - 1)"
    using 1 x(1) by (simp add: y_def field_simps)
  ultimately show ?thesis by (simp add: lo hi)
qed

section \<open>The latency accumulator\<close>

lemma recordLatencies_snoc:
  "recordLatencies (xs @ [x]) s = recordLatency x (recordLatencies xs s)"
  by (simp add: recordLatencies_def)

lemma recordLatencies_Nil: "recordLatencies [] s = s"
  by (simp add: recordLatencies_def)

lemma recordLatencies_Cons:
  "recordLatencies (x # xs) s = recordLatencies xs (recordLatency x s)"
  by (simp add: recordLatencies_def)

lemma recordLatency_fields:
  "latency_count (recordLatency x s) = latency_count s + 1"
  "latency_sum (recordLatency x s) = double_add (latency_sum s) x"
  "max_latency_ms (metrics (recordLatency x s)) = max (max_latency_ms (metrics s)) x"
  "average_latency_ms (metrics (recordLatency x s)) =
     double_divide (double_add (latency_sum s) x) (double_of_uint64 (latency_count s + 1))"
  by (simp_all add: recordLatency_def Let_def max_def)

lemma latency_accumulator:
  assumes "latency_cleared s"
  shows "latency_count (recordLatencies xs s) = of_nat (length xs)
       \<and> latency_sum (recordLatencies xs s) = double_sum xs
       \<and> max_latency_ms (metrics (recordLatencies xs s)) = Max (insert 0 (set xs))"
proof (induction xs rule: rev_induct)
  case Nil
  from assms show ?case
    by (simp add: recordLatencies_def latency_cleared_def double_sum_def)
next
  case (snoc x xs)
  have "insert 0 (set (xs @ [x])) = insert x (insert 0 (set xs))"
    by auto
  moreover have "Max (insert x (insert 0 (set xs))) = max x (Max (insert 0 (set xs)))"
    by (rule Max_insert) simp_all
  ultimately have "Max (insert 0 (set (xs @ [x]))) = max x (Max (insert 0 (set xs)))"
    by (simp only:)
  then have "Max (insert 0 (set (xs @ [x]))) = max (Max (insert 0 (set xs))) x"
    by (simp only: max.commute)
  with snoc show ?case
    by (simp add: recordLatencies_snoc recordLatency_fields double_sum_def)
qed

lemma unat_count_Suc:
  assumes "Suc n < 2 ^ 64"
  shows "unat (of_nat n + 1 :: 64 word) = Suc n"
proof -
  have "(of_nat n + 1 :: 64 word) = of_nat (Suc n)" by simp
  moreover have "unat (of_nat (Suc n) :: 64 word) = Suc n mod 2 ^ LENGTH(64)"
    by (rule unat_of_nat)
  moreover have "Suc n mod 2 ^ LENGTH(64) = Suc n"
    using assms by (simp only: mod_less len_of_numeral_defs) simp
  ultimately show ?thesis by (simp only:)
qed

lemma average_after_records:
  assumes "latency_cleared s" "xs \<noteq> []" "length xs < 2 ^ 64"
  shows "average_latency_ms (metrics (recordLatencies xs s)) =
           double_divide (double_sum xs) (round_double (real (length xs)))"
proof -
  from assms(2) obtain ys y where xs: "xs = ys @ [y]" by (cases xs rule: rev_cases) auto
  from assms(3) xs have "Suc (length ys) < 2 ^ 64" by simp
  then have "unat (of_nat (length ys) + 1 :: 64 word) = Suc (length ys)" by (rule unat_count_Suc)
  then have "double_of_uint64 (of_nat (length ys) + 1) = round_double (real (length xs))"
    by (simp add: double_of_uint64_def xs)
  moreover have "double_sum xs = double_add (double_sum ys) y"
    by (simp add: double_sum_def xs)
  ultimately show ?thesis
    using latency_accumulator [OF assms(1), of ys]
    by (simp add: xs recordLatencies_snoc recordLatency_fields)
qed

lemma exactly_summable_foldl:
  "exactly_summable a xs \<Longrightarrow> foldl double_add a xs = a + sum_list xs"
  by (induction xs arbitrary: a) (simp_all add: double_add_def representable_def)

lemma exact_average:
  assumes "exactly_summable 0 xs" "representable (real (length xs))"
    "representable (sum_list xs / real (length xs))"
  shows "double_divide (double_sum xs) (round_double (real (length xs)))
           = sum_list xs / real (length xs)"
  using assms exactly_summable_foldl [of 0 xs]
  by (simp add: double_sum_def double_divide_def representable_def)



lemma latency_cleared_new: "latency_cleared new_monitor"
  by (simp add: latency_cleared_def new_monitor_def new_metrics_def)

text \<open>
  Claim C1, as amended. Starting from a fresh or reset accumulator, after a non-empty
  sequence of fewer than \<open>2^64\<close> \<^verbatim>\<open>recordLatency\<close> calls whose running sum stays finite:
  the stored maximum is the greatest of 0 and the recorded values (the maximum starts at
  0.0 and is only ever raised); the stored average is the running sum divided by the
  count in double arithmetic, the sum accumulated in call order, with each addition, the
  conversion of the count and the division rounded to the nearest double; and the stored
  average is the exact quotient of the sum of the values by their number when every
  partial sum, the count and that quotient are doubles as they stand.
\<close>

theorem recordLatency_average_and_max:
  assumes "latency_cleared s" and "xs \<noteq> []" and "length xs < 2 ^ 64"
    and "sum_stays_finite 0 xs"
  shows "getMaxLatency (recordLatencies xs s) = max 0 (Max (set xs))
       \<and> getAverageLatency (recordLatencies xs s)
           = double_divide (double_sum xs) (round_double (real (length xs)))
       \<and> (exactly_summable 0 xs \<and> representable (real (length xs))
           \<and> representable (sum_list xs / real (length xs)) \<longrightarrow>
           getAverageLatency (recordLatencies xs s) = sum_list xs / real (length xs))"
proof -
  have "Max (insert 0 (set xs)) = max 0 (Max (set xs))"
    using assms(2) by simp
  then show ?thesis
    using average_after_records [OF assms(1-3)] latency_accumulator [OF assms(1), of xs]
      exact_average [of xs]
    by (simp add: getAverageLatency_def getMaxLatency_def)
qed

text \<open>The run 10, 20, 30, 5: every value that occurs is a double as it stands.\<close>

lemma round_double_run:
  "round_double 10 = 10" "round_double 30 = 30" "round_double 60 = 60"
  "round_double 65 = 65" "round_double 3 = 3" "round_double 4 = 4"
  "round_double 20 = 20" "round_double (65 / 4) = 65 / 4"
  by code_simp+

lemma run_10_20_30_5:
  "sum_stays_finite 0 [10, 20, 30]" "exactly_summable 0 [10, 20, 30]"
  "representable (real (length [10, 20, 30 :: real]))"
  "representable (sum_list [10, 20, 30] / real (length [10, 20, 30 :: real]))"
  "sum_stays_finite 0 [10, 20, 30, 5]" "exactly_summable 0 [10, 20, 30, 5]"
  "representable (real (length [10, 20, 30, 5 :: real]))"
  "representable (sum_list [10, 20, 30, 5] / real (length [10, 20, 30, 5 :: real]))"
  by (simp_all add: double_add_def representable_def round_double_run)

text \<open>
  The concrete run of claim C1: recording 10, 20, 30 gives average 20 and maximum 30;
  recording 5 after that gives average 16.25 and maximum 30.
\<close>

theorem recordLatency_average_and_max_witness:
  "getAverageLatency (recordLatencies [10, 20, 30] new_monitor) = 20
   \<and> getMaxLatency (recordLatencies [10, 20, 30] new_monitor) = 30
   \<and> getAverageLatency (recordLatency 5 (recordLatencies [10, 20, 30] new_monitor)) = 16.25
   \<and> getMaxLatency (recordLatency 5 (recordLatencies [10, 20, 30] new_monitor)) = 30"
proof -
  have a: "recordLatency 5 (recordLatencies [10, 20, 30] new_monitor)
           = recordLatencies [10, 20, 30, 5] new_monitor"
    by (simp add: recordLatencies_def)
  have "getAverageLatency (recordLatencies [10, 20, 30] new_monitor)
          = sum_list [10, 20, 30] / real (length [10, 20, 30 :: real])
        \<and> getMaxLatency (recordLatencies [10, 20, 30] new_monitor)
          = max 0 (Max (set [10, 20, 30]))"
    using recordLatency_average_and_max [OF latency_cleared_new _ _ run_10_20_30_5(1)]
      run_10_20_30_5(2-4)
    by simp
  moreover have "getAverageLatency (recordLatencies [10, 20, 30, 5] new_monitor)
          = sum_list [10, 20, 30, 5] / real (length [10, 20, 30, 5 :: real])
        \<and> getMaxLatency (recordLatencies [10, 20, 30, 5] new_monitor)
          = max 0 (Max (set [10, 20, 30, 5]))"
    using recordLatency_average_and_max [OF latency_cleared_new _ _ run_10_20_30_5(5)]
      run_10_20_30_5(6-8)
    by simp
  ultimately show ?thesis
    unfolding a by simp
qed

text \<open>
  Recording the double 0.1 three times: the sum rounds up to \<^verbatim>\<open>0x1.3333333333334p-2\<close> and
  its third rounds up to \<^verbatim>\<open>0x1.999999999999bp-4\<close>, one unit in the last place above the
  recorded value.
\<close>

lemma tenth_run:
  "double_add 0 tenth = tenth"
  "double_add tenth tenth = 2 * tenth"
  "double_add (2 * tenth) tenth = 5404319552844596 / 18014398509481984"
  "double_of_uint64 (0 + 1 + 1 + 1) = 3"
  "double_divide (5404319552844596 / 18014398509481984) 3
     = 7205759403792795 / 72057594037927936"
  by code_simp+

lemma tenth_thrice:
  "getAverageLatency (recordLatencies [tenth, tenth, tenth] new_monitor)
     = 7205759403792795 / 72057594037927936"
  "getMaxLatency (recordLatencies [tenth, tenth, tenth] new_monitor) = tenth"
proof -
  have c: "latency_count new_monitor = 0" and z: "latency_sum new_monitor = 0"
    and m: "max_latency_ms (metrics new_monitor) = 0"
    by (simp_all add: new_monitor_def new_metrics_def)
  show "getAverageLatency (recordLatencies [tenth, tenth, tenth] new_monitor)
     = 7205759403792795 / 72057594037927936"
    by (simp only: getAverageLatency_def recordLatencies_Cons recordLatencies_Nil
        recordLatency_fields c z tenth_run)
  have "0 \<le> tenth" by (simp add: tenth_def)
  then show "getMaxLatency (recordLatencies [tenth, tenth, tenth] new_monitor) = tenth"
    by (simp add: getMaxLatency_def recordLatencies_Cons recordLatencies_Nil
        recordLatency_fields m)
qed


text \<open>
  Claim C1 as stated fails on a sequence of negative values only: after recording \<open>-5\<close>
  on a fresh monitor the stored maximum is still 0, not \<open>-5\<close>. The stored average is
  not always the exact quotient either: after recording the double 0.1 three times it is
  one unit in the last place above the sum of the three values divided by 3.
\<close>

theorem recordLatency_max_negative_counterexample:
  "getMaxLatency (recordLatencies [- 5] new_monitor) = 0
   \<and> Max (set [- 5 :: real]) = - 5
   \<and> getMaxLatency (recordLatencies [- 5] new_monitor) \<noteq> Max (set [- 5])
   \<and> getAverageLatency (recordLatencies [tenth, tenth, tenth] new_monitor)
       = 7205759403792795 / 72057594037927936
   \<and> sum_list [tenth, tenth, tenth] / real (length [tenth, tenth, tenth])
       = 7205759403792794 / 72057594037927936
   \<and> getAverageLatency (recordLatencies [tenth, tenth, tenth] new_monitor)
       \<noteq> sum_list [tenth, tenth, tenth] / real (length [tenth, tenth, tenth])"
proof -
  have "getMaxLatency (recordLatencies [- 5] new_monitor) = 0"
    by (simp add: recordLatencies_def recordLatency_def getMaxLatency_def new_monitor_def
        new_metrics_def Let_def)
  moreover have "sum_list [tenth, tenth, tenth] / real (length [tenth, tenth, tenth])
                   = 7205759403792794 / 72057594037927936"
    by (simp add: tenth_def)
  ultimately show ?thesis
    unfolding tenth_thrice(1) by simp
qed




section \<open>Counters and reset\<close>

text \<open>One call of a counter operation adds 1 to its counter, modulo \<open>2^64\<close>.\<close>

lemma record_counters_increment:
  "getMessagesProcessed (recordMessageProcessed s) = getMessagesProcessed s + 1"
  "getOpportunitiesDetected (recordOpportunityDetected s) = getOpportunitiesDetected s + 1"
  "getTradesExecuted (recordTradeExecuted s) = getTradesExecuted s + 1"
  by (simp_all add: recordMessageProcessed_def recordOpportunityDetected_def
      recordTradeExecuted_def getMessagesProcessed_def getOpportunitiesDetected_def
      getTradesExecuted_def)

text \<open>
  Claim C5. After \<^verbatim>\<open>resetMetrics\<close>, whatever the state before, the three counters, the
  memory and CPU gauges, and the latency accumulator (sum, count, average, maximum) are
  all zero.
\<close>

theorem resetMetrics_zeroes_everything:
  "getMessagesProcessed (resetMetrics s) = 0
   \<and> getOpportunitiesDetected (resetMetrics s) = 0
   \<and> getTradesExecuted (resetMetrics s) = 0
   \<and> getMemoryUsage (resetMetrics s) = 0
   \<and> getCpuUsage (resetMetrics s) = 0
   \<and> latency_sum (resetMetrics s) = 0
   \<and> latency_count (resetMetrics s) = 0
   \<and> getAverageLatency (resetMetrics s) = 0
   \<and> getMaxLatency (resetMetrics s) = 0"
  by (simp add: resetMetrics_def reset_def getMessagesProcessed_def
      getOpportunitiesDetected_def getTradesExecuted_def getMemoryUsage_def getCpuUsage_def
      getAverageLatency_def getMaxLatency_def)

section \<open>CPU usage\<close>

lemma idle_diff_is_total_diff:
  fixes total_time idle_time last :: "64 word"
  shows "idle_time - (last - (total_time - idle_time)) = total_time - last"
  by simp

lemma cpu_formula_zero:
  fixes total_time idle_time last :: "64 word"
  assumes "0 < total_time - last"
  shows "100 * (1 - real (unat (idle_time - (last - (total_time - idle_time))))
                    / real (unat (total_time - last))) = 0"
proof -
  from assms have "0 < unat (total_time - last)" by (simp add: word_less_nat_alt)
  then have "real (unat (total_time - last)) \<noteq> 0" by (simp only: of_nat_eq_0_iff)
  then have "real (unat (total_time - last)) / real (unat (total_time - last)) = 1"
    by (rule divide_self)
  then show ?thesis by (simp only: idle_diff_is_total_diff) simp
qed

text \<open>
  The subtraction that computes \<open>idle_diff\<close> yields \<open>total_diff\<close> again, so the value
  \<^verbatim>\<open>getCurrentCpuUsage\<close> returns is 0 for every reading and every stored baseline.
\<close>

lemma getCurrentCpuUsage_always_zero: "fst (getCurrentCpuUsage sf current_time s) = 0"
proof (cases sf)
  case None
  then show ?thesis by (simp add: getCurrentCpuUsage_def)
next
  case (Some l)
  define total_time where
    "total_time = user l + nice l + system l + idle l + iowait l + irq l + softirq l + steal l"
  define idle_time where "idle_time = idle l + iowait l"
  define s' where "s' = s\<lparr>last_cpu_time := total_time, last_cpu_check := current_time\<rparr>"
  define usage where
    "usage = 100 * (1 - real (unat (idle_time - (last_cpu_time s - (total_time - idle_time))))
                        / real (unat (total_time - last_cpu_time s)))"
  have eq: "getCurrentCpuUsage sf current_time s =
      (if (current_time - last_cpu_check s) sdiv 1000000 > 0 \<and> last_cpu_time s > 0
       then (if total_time - last_cpu_time s > 0 then (usage, s') else (0, s'))
       else (0, s'))"
    by (simp only: getCurrentCpuUsage_def Some option.case Let_def total_time_def
        idle_time_def s'_def usage_def)
  show ?thesis
  proof (cases "total_time - last_cpu_time s > 0")
    case True
    then have "usage = 0" unfolding usage_def by (rule cpu_formula_zero)
    then show ?thesis by (simp add: eq)
  next
    case False
    then show ?thesis by (simp add: eq)
  qed
qed

text \<open>
  Claim C2, on the code. The two synthetic samples are read one second apart on a fresh
  monitor. The first call stores the total 1000 as the baseline. The second call, for
  which the claim's formula gives 90, returns 0.
\<close>

theorem getCurrentCpuUsage_synthetic_samples:
  "last_cpu_time (snd (getCurrentCpuUsage (Some synthetic_sample1) 1000000000 new_monitor)) = 1000
   \<and> fst (getCurrentCpuUsage (Some synthetic_sample2) 2000000000
            (snd (getCurrentCpuUsage (Some synthetic_sample1) 1000000000 new_monitor))) = 0
   \<and> fst (getCurrentCpuUsage (Some synthetic_sample2) 2000000000
            (snd (getCurrentCpuUsage (Some synthetic_sample1) 1000000000 new_monitor)))
       \<noteq> 100 * (1 - (150 - 100) / (1500 - 1000))
   \<and> 100 * (1 - (150 - 100) / (1500 - 1000)) = (90 :: real)"
  by (simp add: getCurrentCpuUsage_def synthetic_sample1_def synthetic_sample2_def
      new_monitor_def Let_def signed_divide_int_def)

section \<open>Alert evaluation\<close>

lemma alerts_of_and_then:
  "alerts_of k (and_then a b) =
     (case thrown a of Some e \<Rightarrow> alerts_of k a | None \<Rightarrow> alerts_of k a @ alerts_of k b)"
  by (simp add: alerts_of_def and_then_def thrown_def split: option.splits)

lemma thrown_and_then:
  "thrown (and_then a b) = (case thrown a of Some e \<Rightarrow> Some e | None \<Rightarrow> thrown b)"
  by (simp add: and_then_def thrown_def split: option.splits)

text \<open>What each block of \<^verbatim>\<open>checkAlerts\<close> does, with the callback applied to its two strings.\<close>

lemma checkLatencyAlert_eq:
  "checkLatencyAlert to_string s =
     (case latency_alert_callback s of
        Some cb \<Rightarrow>
          if latency_threshold_ms s > 0 \<and> getAverageLatency s > latency_threshold_ms s
          then ([(''LATENCY_ALERT'', latency_alert_message to_string s)],
                cb ''LATENCY_ALERT'' (latency_alert_message to_string s))
          else ([], None)
      | None \<Rightarrow> ([], None))"
  by (simp add: checkLatencyAlert_def latency_alert_message_def invoke_def no_call_def
      Let_def split: option.splits)

lemma checkMemoryAlert_eq:
  "checkMemoryAlert to_string s =
     (case memory_alert_callback s of
        Some cb \<Rightarrow>
          if memory_threshold_mb s > 0 \<and> getMemoryUsage s > memory_threshold_mb s
          then ([(''MEMORY_ALERT'', memory_alert_message to_string s)],
                cb ''MEMORY_ALERT'' (memory_alert_message to_string s))
          else ([], None)
      | None \<Rightarrow> ([], None))"
  by (simp add: checkMemoryAlert_def memory_alert_message_def invoke_def no_call_def
      Let_def split: option.splits)

lemma checkCpuAlert_eq:
  "checkCpuAlert to_string s =
     (case cpu_alert_callback s of
        Some cb \<Rightarrow>
          if cpu_threshold_percentage s > 0 \<and> getCpuUsage s > cpu_threshold_percentage s
          then ([(''CPU_ALERT'', cpu_alert_message to_string s)],
                cb ''CPU_ALERT'' (cpu_alert_message to_string s))
          else ([], None)
      | None \<Rightarrow> ([], None))"
  by (simp add: checkCpuAlert_def cpu_alert_message_def invoke_def no_call_def
      Let_def split: option.splits)

lemma thrown_blocks:
  "thrown (checkLatencyAlert to_string s) =
     (case latency_alert_callback s of
        Some cb \<Rightarrow>
          if latency_threshold_ms s > 0 \<and> getAverageLatency s > latency_threshold_ms s
          then cb ''LATENCY_ALERT'' (latency_alert_message to_string s) else None
      | None \<Rightarrow> None)"
  "thrown (checkMemoryAlert to_string s) =
     (case memory_alert_callback s of
        Some cb \<Rightarrow>
          if memory_threshold_mb s > 0 \<and> getMemoryUsage s > memory_threshold_mb s
          then cb ''MEMORY_ALERT'' (memory_alert_message to_string s) else None
      | None \<Rightarrow> None)"
  "thrown (checkCpuAlert to_string s) =
     (case cpu_alert_callback s of
        Some cb \<Rightarrow>
          if cpu_threshold_percentage s > 0 \<and> getCpuUsage s > cpu_threshold_percentage s
          then cb ''CPU_ALERT'' (cpu_alert_message to_string s) else None
      | None \<Rightarrow> None)"
  by (auto simp add: checkLatencyAlert_eq checkMemoryAlert_eq checkCpuAlert_eq thrown_def
      split: option.splits)

lemma alerts_of_blocks:
  "alerts_of k (checkLatencyAlert to_string s) =
     (if k = ''LATENCY_ALERT'' \<and> latency_alert_callback s \<noteq> None
         \<and> latency_threshold_ms s > 0 \<and> getAverageLatency s > latency_threshold_ms s
      then [(''LATENCY_ALERT'', latency_alert_message to_string s)] else [])"
  "alerts_of k (checkMemoryAlert to_string s) =
     (if k = ''MEMORY_ALERT'' \<and> memory_alert_callback s \<noteq> None
         \<and> memory_threshold_mb s > 0 \<and> getMemoryUsage s > memory_threshold_mb s
      then [(''MEMORY_ALERT'', memory_alert_message to_string s)] else [])"
  "alerts_of k (checkCpuAlert to_string s) =
     (if k = ''CPU_ALERT'' \<and> cpu_alert_callback s \<noteq> None
         \<and> cpu_threshold_percentage s > 0 \<and> getCpuUsage s > cpu_threshold_percentage s
      then [(''CPU_ALERT'', cpu_alert_message to_string s)] else [])"
  by (auto simp add: checkLatencyAlert_eq checkMemoryAlert_eq checkCpuAlert_eq alerts_of_def
      split: option.splits)

text \<open>
  The invocations of a full pass: those of the latency block, then those of the memory
  block unless the latency callback threw, then those of the CPU block unless one of the
  two callbacks before it threw.
\<close>

lemma alerts_of_checkAlerts:
  "alerts_of k (checkAlerts to_string s) =
     alerts_of k (checkLatencyAlert to_string s)
     @ (if thrown (checkLatencyAlert to_string s) = None
        then alerts_of k (checkMemoryAlert to_string s)
             @ (if thrown (checkMemoryAlert to_string s) = None
                then alerts_of k (checkCpuAlert to_string s) else [])
        else [])"
  by (simp add: checkAlerts_def alerts_of_and_then split: option.splits)

lemma thrown_checkAlerts_eq:
  "thrown (checkAlerts to_string s) =
     (case thrown (checkLatencyAlert to_string s) of
        Some e \<Rightarrow> Some e
      | None \<Rightarrow>
          (case thrown (checkMemoryAlert to_string s) of
             Some e \<Rightarrow> Some e
           | None \<Rightarrow> thrown (checkCpuAlert to_string s)))"
  by (simp add: checkAlerts_def thrown_and_then split: option.splits)

lemma checkAlerts_invocations:
  "alerts_of ''LATENCY_ALERT'' (checkAlerts to_string s) =
     (if latency_alert_callback s \<noteq> None \<and> latency_threshold_ms s > 0
         \<and> getAverageLatency s > latency_threshold_ms s
      then [(''LATENCY_ALERT'', latency_alert_message to_string s)] else [])"
  "alerts_of ''MEMORY_ALERT'' (checkAlerts to_string s) =
     (if memory_alert_callback s \<noteq> None \<and> memory_threshold_mb s > 0
         \<and> getMemoryUsage s > memory_threshold_mb s
         \<and> thrown (checkLatencyAlert to_string s) = None
      then [(''MEMORY_ALERT'', memory_alert_message to_string s)] else [])"
  "alerts_of ''CPU_ALERT'' (checkAlerts to_string s) =
     (if cpu_alert_callback s \<noteq> None \<and> cpu_threshold_percentage s > 0
         \<and> getCpuUsage s > cpu_threshold_percentage s
         \<and> thrown (checkLatencyAlert to_string s) = None
         \<and> thrown (checkMemoryAlert to_string s) = None
      then [(''CPU_ALERT'', cpu_alert_message to_string s)] else [])"
  by (simp_all add: alerts_of_checkAlerts alerts_of_blocks)

text \<open>
  Claim C3, as amended. In one pass of \<^verbatim>\<open>checkAlerts\<close> the callback of a kind is invoked,
  once, with the name of its alert and its message, if and only if a callback is
  registered, the threshold is positive, the current value is strictly greater than the
  threshold, and no callback invoked earlier in the same pass threw; the order is latency,
  memory, CPU, and an exception thrown by a callback ends the pass. So a value equal to
  the threshold, a threshold that is not positive or an empty callback gives no
  invocation. An invocation applies the registered callback: what the block throws is
  what the callback throws on these two strings.
\<close>

theorem checkAlerts_fires_iff_exceeds:
  "alerts_of ''LATENCY_ALERT'' (checkAlerts to_string s) =
     (if latency_alert_callback s \<noteq> None \<and> latency_threshold_ms s > 0
         \<and> getAverageLatency s > latency_threshold_ms s
      then [(''LATENCY_ALERT'', latency_alert_message to_string s)] else [])
   \<and> alerts_of ''MEMORY_ALERT'' (checkAlerts to_string s) =
     (if memory_alert_callback s \<noteq> None \<and> memory_threshold_mb s > 0
         \<and> getMemoryUsage s > memory_threshold_mb s
         \<and> thrown (checkLatencyAlert to_string s) = None
      then [(''MEMORY_ALERT'', memory_alert_message to_string s)] else [])
   \<and> alerts_of ''CPU_ALERT'' (checkAlerts to_string s) =
     (if cpu_alert_callback s \<noteq> None \<and> cpu_threshold_percentage s > 0
         \<and> getCpuUsage s > cpu_threshold_percentage s
         \<and> thrown (checkLatencyAlert to_string s) = None
         \<and> thrown (checkMemoryAlert to_string s) = None
      then [(''CPU_ALERT'', cpu_alert_message to_string s)] else [])
   \<and> thrown (checkLatencyAlert to_string s) =
     (case latency_alert_callback s of
        Some cb \<Rightarrow>
          if latency_threshold_ms s > 0 \<and> getAverageLatency s > latency_threshold_ms s
          then cb ''LATENCY_ALERT'' (latency_alert_message to_string s) else None
      | None \<Rightarrow> None)
   \<and> thrown (checkMemoryAlert to_string s) =
     (case memory_alert_callback s of
        Some cb \<Rightarrow>
          if memory_threshold_mb s > 0 \<and> getMemoryUsage s > memory_threshold_mb s
          then cb ''MEMORY_ALERT'' (memory_alert_message to_string s) else None
      | None \<Rightarrow> None)
   \<and> thrown (checkCpuAlert to_string s) =
     (case cpu_alert_callback s of
        Some cb \<Rightarrow>
          if cpu_threshold_percentage s > 0 \<and> getCpuUsage s > cpu_threshold_percentage s
          then cb ''CPU_ALERT'' (cpu_alert_message to_string s) else None
      | None \<Rightarrow> None)"
  using checkAlerts_invocations [of to_string s] thrown_blocks [of to_string s]
  by (simp only: simp_thms)

lemma fixture_rounding:
  "double_add 0 50 = 50" "double_add 0 60 = 60" "double_of_uint64 1 = 1"
  "double_divide 50 1 = 50" "double_divide 60 1 = 60"
  by code_simp+

lemma breached_monitor_fields:
  "latency_alert_callback breached_monitor = Some returning_callback"
  "memory_alert_callback breached_monitor = Some returning_callback"
  "cpu_alert_callback breached_monitor = Some returning_callback"
  "latency_threshold_ms breached_monitor = 50"
  "memory_threshold_mb breached_monitor = 100"
  "cpu_threshold_percentage breached_monitor = 80"
  "getAverageLatency breached_monitor = 50"
  "getMemoryUsage breached_monitor = 150"
  "getCpuUsage breached_monitor = 90"
  by (simp_all add: breached_monitor_def setLatencyAlertCallback_def
      setMemoryAlertCallback_def setCpuAlertCallback_def recordLatency_def
      recordMemoryUsage_def recordCpuUsage_def new_monitor_def new_metrics_def
      getAverageLatency_def getMemoryUsage_def getCpuUsage_def Let_def fixture_rounding)

lemma at_threshold_monitor_fields:
  "latency_threshold_ms at_threshold_monitor = 50"
  "memory_threshold_mb at_threshold_monitor = 100"
  "cpu_threshold_percentage at_threshold_monitor = 80"
  "getAverageLatency at_threshold_monitor = 50"
  "getMemoryUsage at_threshold_monitor = 100"
  "getCpuUsage at_threshold_monitor = 80"
  by (simp_all add: at_threshold_monitor_def setLatencyAlertCallback_def
      setMemoryAlertCallback_def setCpuAlertCallback_def recordLatency_def
      recordMemoryUsage_def recordCpuUsage_def new_monitor_def new_metrics_def
      getAverageLatency_def getMemoryUsage_def getCpuUsage_def Let_def fixture_rounding)

text \<open>
  Claim C3 on a monitor with latency at its threshold and memory and CPU above theirs,
  with callbacks that return: no latency alert, one memory alert, one CPU alert; and on a
  monitor with memory and CPU at their thresholds: no memory alert and no CPU alert.
\<close>

theorem checkAlerts_fires_iff_exceeds_witness:
  "alerts_of ''LATENCY_ALERT'' (checkAlerts no_digits breached_monitor) = []
   \<and> alerts_of ''MEMORY_ALERT'' (checkAlerts no_digits breached_monitor)
       = [(''MEMORY_ALERT'', memory_alert_message no_digits breached_monitor)]
   \<and> alerts_of ''CPU_ALERT'' (checkAlerts no_digits breached_monitor)
       = [(''CPU_ALERT'', cpu_alert_message no_digits breached_monitor)]
   \<and> thrown (checkMemoryAlert no_digits breached_monitor) = None
   \<and> alerts_of ''MEMORY_ALERT'' (checkAlerts no_digits at_threshold_monitor) = []
   \<and> alerts_of ''CPU_ALERT'' (checkAlerts no_digits at_threshold_monitor) = []"
  using checkAlerts_fires_iff_exceeds [of no_digits breached_monitor]
    checkAlerts_fires_iff_exceeds [of no_digits at_threshold_monitor]
  by (simp add: breached_monitor_fields at_threshold_monitor_fields returning_callback_def)

lemma throwing_memory_monitor_fields:
  "latency_alert_callback throwing_memory_monitor = None"
  "memory_alert_callback throwing_memory_monitor = Some throwing_callback"
  "cpu_alert_callback throwing_memory_monitor = Some returning_callback"
  "memory_threshold_mb throwing_memory_monitor = 100"
  "cpu_threshold_percentage throwing_memory_monitor = 80"
  "getMemoryUsage throwing_memory_monitor = 150"
  "getCpuUsage throwing_memory_monitor = 90"
  by (simp_all add: throwing_memory_monitor_def setMemoryAlertCallback_def
      setCpuAlertCallback_def recordMemoryUsage_def recordCpuUsage_def new_monitor_def
      new_metrics_def getMemoryUsage_def getCpuUsage_def)

text \<open>
  Claim C3 as stated fails: on the monitor whose memory callback throws, a CPU callback is
  registered, its threshold is positive and the CPU usage is strictly above it, yet the
  pass does not invoke the CPU callback.
\<close>

theorem checkAlerts_skips_after_throw_counterexample:
  "cpu_alert_callback throwing_memory_monitor \<noteq> None
   \<and> cpu_threshold_percentage throwing_memory_monitor > 0
   \<and> getCpuUsage throwing_memory_monitor > cpu_threshold_percentage throwing_memory_monitor
   \<and> alerts_of ''CPU_ALERT'' (checkAlerts no_digits throwing_memory_monitor) = []"
  by (simp add: throwing_memory_monitor_fields alerts_of_checkAlerts alerts_of_blocks
      thrown_blocks throwing_callback_def)

text \<open>
  Claim C10. Each within-threshold query is true exactly when the current value is at
  most the argument. So when a value equals its configured alert threshold, the query at
  that threshold is true and the pass of \<^verbatim>\<open>checkAlerts\<close> invokes no callback of that kind.
\<close>

theorem within_threshold_is_inclusive:
  "(isLatencyWithinThreshold t s \<longleftrightarrow> getAverageLatency s \<le> t)
   \<and> (isMemoryWithinThreshold t s \<longleftrightarrow> getMemoryUsage s \<le> t)
   \<and> (isCpuWithinThreshold t s \<longleftrightarrow> getCpuUsage s \<le> t)
   \<and> (getAverageLatency s = latency_threshold_ms s \<longrightarrow>
        isLatencyWithinThreshold (latency_threshold_ms s) s
        \<and> alerts_of ''LATENCY_ALERT'' (checkAlerts to_string s) = [])
   \<and> (getMemoryUsage s = memory_threshold_mb s \<longrightarrow>
        isMemoryWithinThreshold (memory_threshold_mb s) s
        \<and> alerts_of ''MEMORY_ALERT'' (checkAlerts to_string s) = [])
   \<and> (getCpuUsage s = cpu_threshold_percentage s \<longrightarrow>
        isCpuWithinThreshold (cpu_threshold_percentage s) s
        \<and> alerts_of ''CPU_ALERT'' (checkAlerts to_string s) = [])"
  using checkAlerts_invocations [of to_string s]
  by (simp add: isLatencyWithinThreshold_def isMemoryWithinThreshold_def
      isCpuWithinThreshold_def)

text \<open>Claim C10 on a monitor whose three values are at their thresholds.\<close>

theorem within_threshold_is_inclusive_witness:
  "getAverageLatency at_threshold_monitor = latency_threshold_ms at_threshold_monitor
   \<and> getMemoryUsage at_threshold_monitor = memory_threshold_mb at_threshold_monitor
   \<and> getCpuUsage at_threshold_monitor = cpu_threshold_percentage at_threshold_monitor
   \<and> isLatencyWithinThreshold 50 at_threshold_monitor
   \<and> isMemoryWithinThreshold 100 at_threshold_monitor
   \<and> isCpuWithinThreshold 80 at_threshold_monitor
   \<and> alerts_of ''LATENCY_ALERT'' (checkAlerts no_digits at_threshold_monitor) = []
   \<and> alerts_of ''MEMORY_ALERT'' (checkAlerts no_digits at_threshold_monitor) = []
   \<and> alerts_of ''CPU_ALERT'' (checkAlerts no_digits at_threshold_monitor) = []"
  using within_threshold_is_inclusive [of 50 at_threshold_monitor no_digits]
  by (simp add: at_threshold_monitor_fields)

section \<open>Lifecycle\<close>

lemma lifecycle_inv_new: "lifecycle_inv new_monitor"
  by (simp add: lifecycle_inv_def new_monitor_def)

lemma start_running:
  "running s \<Longrightarrow>
   start s = Inr (s\<lparr>log_calls := log_calls s @ [(WARN, ''Performance monitor already running'')]\<rparr>)"
  by (simp add: start_def)

lemma stop_not_running: "\<not> running s \<Longrightarrow> stop s = s"
  by (simp add: stop_def)

lemma stop_clears_running: "\<not> running (stop s)"
  by (simp add: stop_def Let_def split: option.splits)

lemma start_inv:
  assumes "lifecycle_inv s"
  shows "\<exists>s'. start s = Inr s' \<and> lifecycle_inv s' \<and> running s'"
proof (cases "running s")
  case True
  with assms show ?thesis by (simp add: start_def lifecycle_inv_def)
next
  case False
  with assms have not_joinable: "monitoring_thread s \<noteq> Some (Thread True)"
    by (simp add: lifecycle_inv_def)
  have "monitoring_thread s = None \<or> monitoring_thread s = Some (Thread False)"
  proof (cases "monitoring_thread s")
    case None
    then show ?thesis by simp
  next
    case (Some t)
    with not_joinable show ?thesis by (cases t) auto
  qed
  with False assms show ?thesis
    by (auto simp: start_def lifecycle_inv_def Let_def)
qed

lemma stop_inv:
  assumes "lifecycle_inv s"
  shows "lifecycle_inv (stop s)"
  using assms by (auto simp: stop_def lifecycle_inv_def Let_def split: if_splits)

lemma lifecycle_keeps_inv:
  "lifecycle_inv s \<Longrightarrow> \<exists>s'. lifecycle cs s = Inr s' \<and> lifecycle_inv s'"
proof (induction cs arbitrary: s)
  case Nil
  then show ?case by simp
next
  case (Cons c cs)
  show ?case
  proof (cases c)
    case Start
    from start_inv [OF Cons.prems] obtain s1 where "start s = Inr s1" "lifecycle_inv s1"
      by blast
    with Cons.IH [of s1] Start show ?thesis by simp
  next
    case Stop
    with Cons.IH [OF stop_inv [OF Cons.prems]] show ?thesis by simp
  qed
qed

text \<open>
  Claim C6. \<^verbatim>\<open>start\<close> on a running monitor changes nothing but the log, to which it adds
  the warning. \<^verbatim>\<open>stop\<close> on a monitor that is not running changes nothing, and after any
  \<^verbatim>\<open>stop\<close> the monitor is not running. Every sequence of \<^verbatim>\<open>start\<close> and \<^verbatim>\<open>stop\<close> calls on
  a new monitor runs without failure and ends with exactly one background thread when the
  monitor is running and none when it is not.
\<close>

theorem lifecycle_single_thread:
  "(running s \<longrightarrow>
      start s = Inr (s\<lparr>log_calls := log_calls s @
                        [(WARN, ''Performance monitor already running'')]\<rparr>))
   \<and> (\<not> running s \<longrightarrow> stop s = s)
   \<and> \<not> running (stop s)
   \<and> (\<exists>s'. lifecycle cs new_monitor = Inr s'
           \<and> live_threads s' = (if running s' then 1 else 0))"
proof -
  obtain s' where "lifecycle cs new_monitor = Inr s'" "lifecycle_inv s'"
    using lifecycle_keeps_inv [OF lifecycle_inv_new] by blast
  then have "\<exists>s'. lifecycle cs new_monitor = Inr s'
           \<and> live_threads s' = (if running s' then 1 else 0)"
    by (auto simp: lifecycle_inv_def split: if_splits)
  then show ?thesis
    by (simp add: start_running stop_not_running stop_clears_running)
qed

lemma start_new_monitor:
  "start new_monitor =
     Inr (new_monitor\<lparr>running := True, monitoring_enabled := True,
            monitoring_thread := Some (Thread True), live_threads := 1,
            log_calls := [(INFO, ''Performance monitor started'')]\<rparr>)"
  by (simp add: start_def new_monitor_def Let_def)

text \<open>
  Claim C6 on a new monitor: \<^verbatim>\<open>start\<close> twice leaves one thread and logs the warning;
  \<^verbatim>\<open>start\<close>, \<^verbatim>\<open>start\<close>, \<^verbatim>\<open>stop\<close>, \<^verbatim>\<open>stop\<close> leaves none, and the monitor stopped.
\<close>

theorem lifecycle_single_thread_witness:
  "running (projr (start new_monitor))
   \<and> start (projr (start new_monitor)) =
       Inr ((projr (start new_monitor))\<lparr>log_calls :=
              [(INFO, ''Performance monitor started''),
               (WARN, ''Performance monitor already running'')]\<rparr>)
   \<and> \<not> running new_monitor \<and> stop new_monitor = new_monitor
   \<and> (\<exists>s'. lifecycle [Start, Start] new_monitor = Inr s' \<and> running s'
         \<and> live_threads s' = 1)
   \<and> (\<exists>s'. lifecycle [Start, Start, Stop, Stop] new_monitor = Inr s' \<and> \<not> running s'
         \<and> live_threads s' = 0)"
proof -
  have r: "running (projr (start new_monitor))"
    by (simp add: start_new_monitor)
  have l: "log_calls (projr (start new_monitor)) = [(INFO, ''Performance monitor started'')]"
    by (simp add: start_new_monitor)
  have n: "\<not> running new_monitor"
    by (simp add: new_monitor_def)
  have a: "running s'" if "lifecycle [Start, Start] new_monitor = Inr s'" for s'
    using that by (auto simp add: start_def new_monitor_def Let_def)
  have b: "\<not> running s'" if "lifecycle [Start, Start, Stop, Stop] new_monitor = Inr s'" for s'
    using that by (auto simp add: start_def stop_def new_monitor_def Let_def)
  from lifecycle_single_thread [of "projr (start new_monitor)" "[Start, Start]"] r l
  have 1: "start (projr (start new_monitor)) =
       Inr ((projr (start new_monitor))\<lparr>log_calls :=
              [(INFO, ''Performance monitor started''),
               (WARN, ''Performance monitor already running'')]\<rparr>)"
    by simp
  from lifecycle_single_thread [of "projr (start new_monitor)" "[Start, Start]"] a
  have 2: "\<exists>s'. lifecycle [Start, Start] new_monitor = Inr s' \<and> running s'
         \<and> live_threads s' = 1"
    by (metis (full_types))
  from lifecycle_single_thread [of new_monitor "[Start, Start, Stop, Stop]"] b n
  have 3: "stop new_monitor = new_monitor
     \<and> (\<exists>s'. lifecycle [Start, Start, Stop, Stop] new_monitor = Inr s' \<and> \<not> running s'
         \<and> live_threads s' = 0)"
    by (metis (full_types))
  from r n 1 2 3 show ?thesis by (simp only: simp_thms)
qed

text \<open>
  Claim C8, as amended. No operation checks whether \<^verbatim>\<open>initialize\<close> was called. \<^verbatim>\<open>start\<close> on
  a monitor that was never initialised succeeds with the default interval of 1000 ms, and
  reaches the state that \<^verbatim>\<open>start\<close> reaches after \<^verbatim>\<open>initialize\<close>, up to the three fields
  that \<^verbatim>\<open>initialize\<close> writes and that \<^verbatim>\<open>start\<close> does not read (the interval, the time of
  the last CPU check, and the log).
\<close>

theorem start_ignores_initialize:
  "\<exists>s1 s2. start new_monitor = Inr s1
     \<and> start (snd (initialize interval_ms clock new_monitor)) = Inr s2
     \<and> running s1 \<and> live_threads s1 = 1 \<and> monitoring_interval_ms s1 = 1000
     \<and> s2\<lparr>log_calls := []\<rparr>
        = s1\<lparr>monitoring_interval_ms := interval_ms, last_cpu_check := clock, log_calls := []\<rparr>"
  by (simp add: start_def initialize_def new_monitor_def Let_def)

text \<open>
  Claim C8 as stated fails: \<^verbatim>\<open>start\<close> on a new monitor, before any \<^verbatim>\<open>initialize\<close>, does not
  fail; the monitor is running with one background thread and the default interval.
\<close>

theorem start_before_initialize_counterexample:
  "\<not> isl (start new_monitor) \<and> running (projr (start new_monitor))
   \<and> live_threads (projr (start new_monitor)) = 1
   \<and> monitoring_interval_ms (projr (start new_monitor)) = 1000"
  by (simp add: start_def new_monitor_def Let_def)

section \<open>Exceptions from callbacks\<close>

lemma thrown_checkLatencyAlert:
  "thrown (checkLatencyAlert to_string s) = Some e \<Longrightarrow>
   \<exists>cb kind message. latency_alert_callback s = Some cb \<and> cb kind message = Some e"
  by (auto simp: checkLatencyAlert_def thrown_def invoke_def no_call_def Let_def
      split: option.splits if_splits)

lemma thrown_checkMemoryAlert:
  "thrown (checkMemoryAlert to_string s) = Some e \<Longrightarrow>
   \<exists>cb kind message. memory_alert_callback s = Some cb \<and> cb kind message = Some e"
  by (auto simp: checkMemoryAlert_def thrown_def invoke_def no_call_def Let_def
      split: option.splits if_splits)

lemma thrown_checkCpuAlert:
  "thrown (checkCpuAlert to_string s) = Some e \<Longrightarrow>
   \<exists>cb kind message. cpu_alert_callback s = Some cb \<and> cb kind message = Some e"
  by (auto simp: checkCpuAlert_def thrown_def invoke_def no_call_def Let_def
      split: option.splits if_splits)

text \<open>An exception that leaves \<^verbatim>\<open>checkAlerts\<close> was thrown by one of the registered callbacks.\<close>

lemma thrown_checkAlerts:
  assumes "thrown (checkAlerts to_string s) = Some e"
  shows "\<exists>cb kind message.
           (latency_alert_callback s = Some cb \<or> memory_alert_callback s = Some cb
            \<or> cpu_alert_callback s = Some cb) \<and> cb kind message = Some e"
  using assms thrown_checkLatencyAlert [of to_string s e]
    thrown_checkMemoryAlert [of to_string s e] thrown_checkCpuAlert [of to_string s e]
  by (auto simp: checkAlerts_def thrown_and_then split: option.splits)

lemma throws_only_std_checkAlerts:
  "throws_only_std s \<Longrightarrow> thrown (checkAlerts to_string s) \<noteq> Some OtherException"
  using thrown_checkAlerts [of to_string s OtherException]
  by (auto simp: throws_only_std_def)

lemma getCurrentCpuUsage_keeps:
  "latency_alert_callback (snd (getCurrentCpuUsage sf t s)) = latency_alert_callback s"
  "memory_alert_callback (snd (getCurrentCpuUsage sf t s)) = memory_alert_callback s"
  "cpu_alert_callback (snd (getCurrentCpuUsage sf t s)) = cpu_alert_callback s"
  "monitoring_enabled (snd (getCurrentCpuUsage sf t s)) = monitoring_enabled s"
  by (simp_all add: getCurrentCpuUsage_def Let_def split: option.splits)

lemma throws_only_std_cong:
  "latency_alert_callback s' = latency_alert_callback s \<Longrightarrow>
   memory_alert_callback s' = memory_alert_callback s \<Longrightarrow>
   cpu_alert_callback s' = cpu_alert_callback s \<Longrightarrow>
   throws_only_std s' = throws_only_std s"
  by (simp add: throws_only_std_def)

lemma sampled_throws_only_std:
  "throws_only_std
     (recordCpuUsage c (snd (getCurrentCpuUsage sf t (recordMemoryUsage m s))))
   = throws_only_std s"
  by (rule throws_only_std_cong)
    (simp_all add: recordCpuUsage_def recordMemoryUsage_def getCurrentCpuUsage_keeps)

text \<open>
  One iteration with callbacks that throw nothing but \<^verbatim>\<open>std::exception\<close>: the iteration
  ends normally, with the same callbacks and the same loop flag.
\<close>

lemma monitoringIteration_eq:
  "monitoringIteration to_string t s =
     (case thrown (checkAlerts to_string (sampled t s)) of
        None \<Rightarrow>
          Inr ((sampled t s)\<lparr>log_calls := log_calls (sampled t s) @
            [(PERFORMANCE, ''Messages: {}, Opportunities: {}, Trades: {}, ''
                @ ''Avg Latency: {:.2f}ms, Max Latency: {:.2f}ms, ''
                @ ''Memory: {:.2f}MB, CPU: {:.2f}%'')]\<rparr>)
      | Some (StdException what) \<Rightarrow>
          Inr ((sampled t s)\<lparr>log_calls := log_calls (sampled t s) @
            [(ERROR, ''Error in performance monitoring loop: '' @ what)]\<rparr>)
      | Some OtherException \<Rightarrow> Inl OtherException)"
  by (simp only: monitoringIteration_def sampled_def Let_def)

lemma sampled_keeps:
  "throws_only_std (sampled t s) = throws_only_std s"
  "monitoring_enabled (sampled t s) = monitoring_enabled s"
proof -
  show "throws_only_std (sampled t s) = throws_only_std s"
    by (simp only: sampled_def Let_def sampled_throws_only_std)
  show "monitoring_enabled (sampled t s) = monitoring_enabled s"
    by (simp add: sampled_def Let_def recordCpuUsage_def recordMemoryUsage_def
        getCurrentCpuUsage_keeps)
qed

text \<open>
  One iteration with callbacks that throw nothing but \<^verbatim>\<open>std::exception\<close>: the iteration
  ends normally, with the same callbacks and the same loop flag.
\<close>

lemma monitoringIteration_survives:
  assumes "throws_only_std s"
  shows "\<exists>s'. monitoringIteration to_string t s = Inr s' \<and> throws_only_std s'
              \<and> monitoring_enabled s' = monitoring_enabled s"
proof -
  have std: "throws_only_std (sampled t s)"
    using assms by (simp only: sampled_keeps)
  have upd: "throws_only_std ((sampled t s)\<lparr>log_calls := l\<rparr>) \<and>
             monitoring_enabled ((sampled t s)\<lparr>log_calls := l\<rparr>) = monitoring_enabled s" for l
    using std sampled_keeps(2) [of t s] by (simp add: throws_only_std_def)
  show ?thesis
  proof (cases "thrown (checkAlerts to_string (sampled t s))")
    case None
    then show ?thesis unfolding monitoringIteration_eq using upd by simp
  next
    case (Some e)
    with throws_only_std_checkAlerts [OF std, of to_string]
    obtain what where "e = StdException what" by (cases e) auto
    with Some show ?thesis unfolding monitoringIteration_eq using upd by simp
  qed
qed

lemma monitoringLoop_survives:
  "throws_only_std s \<Longrightarrow> monitoringLoop to_string ts s \<noteq> Died e"
proof (induction ts arbitrary: s)
  case Nil
  then show ?case by simp
next
  case (Cons t ts)
  from monitoringIteration_survives [OF Cons.prems, of to_string t]
  obtain s' where "monitoringIteration to_string t s = Inr s'" "throws_only_std s'"
    by blast
  with Cons.IH [of s'] show ?case by simp
qed

text \<open>
  Claim C7, as amended. \<^verbatim>\<open>checkAlerts\<close> catches nothing: an exception thrown by the
  callback of a kind leaves \<^verbatim>\<open>checkAlerts\<close>, and the kinds after it are not evaluated in
  that pass. In the monitoring loop an exception derived from \<^verbatim>\<open>std::exception\<close> that
  leaves \<^verbatim>\<open>checkAlerts\<close> is caught by the handler of the loop, which logs it and ends the
  iteration normally. So when every exception the registered callbacks can throw derives
  from \<^verbatim>\<open>std::exception\<close>, every iteration ends normally and the loop, run over any
  number of iterations, is never ended by an exception.
\<close>

theorem monitoringLoop_survives_std_exceptions:
  "(latency_alert_callback s = Some cb \<and> 0 < latency_threshold_ms s
      \<and> latency_threshold_ms s < getAverageLatency s
      \<and> cb ''LATENCY_ALERT'' (latency_alert_message to_string s) = Some e \<longrightarrow>
      thrown (checkAlerts to_string s) = Some e
      \<and> alerts_of ''MEMORY_ALERT'' (checkAlerts to_string s) = []
      \<and> alerts_of ''CPU_ALERT'' (checkAlerts to_string s) = [])
   \<and> (thrown (checkLatencyAlert to_string s) = None
      \<and> memory_alert_callback s = Some cb \<and> 0 < memory_threshold_mb s
      \<and> memory_threshold_mb s < getMemoryUsage s
      \<and> cb ''MEMORY_ALERT'' (memory_alert_message to_string s) = Some e \<longrightarrow>
      thrown (checkAlerts to_string s) = Some e
      \<and> alerts_of ''CPU_ALERT'' (checkAlerts to_string s) = [])
   \<and> (thrown (checkLatencyAlert to_string s) = None
      \<and> thrown (checkMemoryAlert to_string s) = None
      \<and> cpu_alert_callback s = Some cb \<and> 0 < cpu_threshold_percentage s
      \<and> cpu_threshold_percentage s < getCpuUsage s
      \<and> cb ''CPU_ALERT'' (cpu_alert_message to_string s) = Some e \<longrightarrow>
      thrown (checkAlerts to_string s) = Some e)
   \<and> (thrown (checkAlerts to_string (sampled t s)) = Some (StdException what) \<longrightarrow>
      monitoringIteration to_string t s =
        Inr ((sampled t s)\<lparr>log_calls := log_calls (sampled t s) @
               [(ERROR, ''Error in performance monitoring loop: '' @ what)]\<rparr>))
   \<and> (throws_only_std s \<longrightarrow>
      (\<exists>s'. monitoringIteration to_string t s = Inr s')
      \<and> (\<forall>e. monitoringLoop to_string ts s \<noteq> Died e))"
proof (intro conjI impI)
  assume "latency_alert_callback s = Some cb \<and> 0 < latency_threshold_ms s
      \<and> latency_threshold_ms s < getAverageLatency s
      \<and> cb ''LATENCY_ALERT'' (latency_alert_message to_string s) = Some e"
  then have "thrown (checkLatencyAlert to_string s) = Some e"
    by (simp add: thrown_blocks)
  then show "thrown (checkAlerts to_string s) = Some e"
    and "alerts_of ''MEMORY_ALERT'' (checkAlerts to_string s) = []"
    and "alerts_of ''CPU_ALERT'' (checkAlerts to_string s) = []"
    by (simp_all add: thrown_checkAlerts_eq alerts_of_checkAlerts alerts_of_blocks)
next
  assume "thrown (checkLatencyAlert to_string s) = None
      \<and> memory_alert_callback s = Some cb \<and> 0 < memory_threshold_mb s
      \<and> memory_threshold_mb s < getMemoryUsage s
      \<and> cb ''MEMORY_ALERT'' (memory_alert_message to_string s) = Some e"
  then have "thrown (checkLatencyAlert to_string s) = None"
    and "thrown (checkMemoryAlert to_string s) = Some e"
    by (simp_all add: thrown_blocks)
  then show "thrown (checkAlerts to_string s) = Some e"
    and "alerts_of ''CPU_ALERT'' (checkAlerts to_string s) = []"
    by (simp_all add: thrown_checkAlerts_eq alerts_of_checkAlerts alerts_of_blocks)
next
  assume "thrown (checkLatencyAlert to_string s) = None
      \<and> thrown (checkMemoryAlert to_string s) = None
      \<and> cpu_alert_callback s = Some cb \<and> 0 < cpu_threshold_percentage s
      \<and> cpu_threshold_percentage s < getCpuUsage s
      \<and> cb ''CPU_ALERT'' (cpu_alert_message to_string s) = Some e"
  then have "thrown (checkLatencyAlert to_string s) = None"
    and "thrown (checkMemoryAlert to_string s) = None"
    and "thrown (checkCpuAlert to_string s) = Some e"
    by (simp_all add: thrown_blocks)
  then show "thrown (checkAlerts to_string s) = Some e"
    by (simp add: thrown_checkAlerts_eq)
next
  assume "thrown (checkAlerts to_string (sampled t s)) = Some (StdException what)"
  then show "monitoringIteration to_string t s =
        Inr ((sampled t s)\<lparr>log_calls := log_calls (sampled t s) @
               [(ERROR, ''Error in performance monitoring loop: '' @ what)]\<rparr>)"
    by (simp add: monitoringIteration_eq)
next
  assume "throws_only_std s"
  then show "\<exists>s'. monitoringIteration to_string t s = Inr s'"
    using monitoringIteration_survives [of s to_string t] by blast
next
  assume "throws_only_std s"
  then show "\<forall>e. monitoringLoop to_string ts s \<noteq> Died e"
    using monitoringLoop_survives [of s to_string ts] by blast
qed

lemma throwing_monitor_fields:
  "latency_alert_callback throwing_monitor = Some throwing_callback"
  "memory_alert_callback throwing_monitor = Some returning_callback"
  "cpu_alert_callback throwing_monitor = None"
  "latency_threshold_ms throwing_monitor = 50"
  "memory_threshold_mb throwing_monitor = 100"
  "cpu_threshold_percentage throwing_monitor = 0"
  "getAverageLatency throwing_monitor = 60"
  "getMemoryUsage throwing_monitor = 150"
  "monitoring_enabled throwing_monitor"
  "log_calls throwing_monitor = []"
  by (simp_all add: throwing_monitor_def setLatencyAlertCallback_def
      setMemoryAlertCallback_def recordLatency_def recordMemoryUsage_def new_monitor_def
      new_metrics_def getAverageLatency_def getMemoryUsage_def Let_def fixture_rounding)

lemma throwing_cpu_monitor_fields:
  "latency_alert_callback throwing_cpu_monitor = None"
  "memory_alert_callback throwing_cpu_monitor = None"
  "cpu_alert_callback throwing_cpu_monitor = Some throwing_callback"
  "cpu_threshold_percentage throwing_cpu_monitor = 80"
  "getCpuUsage throwing_cpu_monitor = 90"
  by (simp_all add: throwing_cpu_monitor_def setCpuAlertCallback_def recordCpuUsage_def
      new_monitor_def new_metrics_def getCpuUsage_def)

lemma throws_only_std_throwing_monitor: "throws_only_std throwing_monitor"
  by (auto simp: throws_only_std_def throwing_monitor_fields throwing_callback_def
      returning_callback_def)

lemma sampled_throwing_monitor:
  "latency_alert_callback (sampled idle_tick throwing_monitor) = Some throwing_callback"
  "latency_threshold_ms (sampled idle_tick throwing_monitor) = 50"
  "getAverageLatency (sampled idle_tick throwing_monitor) = 60"
  "log_calls (sampled idle_tick throwing_monitor) = []"
  using throwing_monitor_fields
  by (simp_all add: sampled_def idle_tick_def getCurrentCpuUsage_def recordCpuUsage_def
      recordMemoryUsage_def getAverageLatency_def Let_def)

text \<open>
  Claim C7 on three monitors whose latency, memory and CPU callback throws: the exception
  leaves \<^verbatim>\<open>checkAlerts\<close> and the later kinds are not invoked; in an iteration on the first
  monitor the handler of the loop logs the error and the iteration ends normally; its
  callbacks throw only \<^verbatim>\<open>std::exception\<close>, and two iterations leave the loop going.
\<close>

theorem monitoringLoop_survives_std_exceptions_witness:
  "thrown (checkAlerts no_digits throwing_monitor) = Some (StdException ''callback failed'')
   \<and> alerts_of ''MEMORY_ALERT'' (checkAlerts no_digits throwing_monitor) = []
   \<and> thrown (checkAlerts no_digits throwing_memory_monitor)
       = Some (StdException ''callback failed'')
   \<and> alerts_of ''CPU_ALERT'' (checkAlerts no_digits throwing_memory_monitor) = []
   \<and> thrown (checkAlerts no_digits throwing_cpu_monitor)
       = Some (StdException ''callback failed'')
   \<and> thrown (checkAlerts no_digits (sampled idle_tick throwing_monitor))
       = Some (StdException ''callback failed'')
   \<and> monitoringIteration no_digits idle_tick throwing_monitor =
        Inr ((sampled idle_tick throwing_monitor)\<lparr>log_calls :=
               [(ERROR, ''Error in performance monitoring loop: callback failed'')]\<rparr>)
   \<and> throws_only_std throwing_monitor
   \<and> (\<forall>e. monitoringLoop no_digits [idle_tick, idle_tick] throwing_monitor \<noteq> Died e)"
proof -
  have t: "throwing_callback k m = Some (StdException ''callback failed'')" for k m
    by (simp add: throwing_callback_def)
  have 1: "thrown (checkAlerts no_digits throwing_monitor)
             = Some (StdException ''callback failed'')
           \<and> alerts_of ''MEMORY_ALERT'' (checkAlerts no_digits throwing_monitor) = []"
    using monitoringLoop_survives_std_exceptions [where s = throwing_monitor
        and cb = throwing_callback and e = "StdException ''callback failed''"
        and to_string = no_digits]
    by (simp add: throwing_monitor_fields t)
  have 2: "thrown (checkAlerts no_digits throwing_memory_monitor)
             = Some (StdException ''callback failed'')
           \<and> alerts_of ''CPU_ALERT'' (checkAlerts no_digits throwing_memory_monitor) = []"
    using monitoringLoop_survives_std_exceptions [where s = throwing_memory_monitor
        and cb = throwing_callback and e = "StdException ''callback failed''"
        and to_string = no_digits]
    by (simp add: throwing_memory_monitor_fields thrown_blocks t)
  have 3: "thrown (checkAlerts no_digits throwing_cpu_monitor)
             = Some (StdException ''callback failed'')"
    using monitoringLoop_survives_std_exceptions [where s = throwing_cpu_monitor
        and cb = throwing_callback and e = "StdException ''callback failed''"
        and to_string = no_digits]
    by (simp add: throwing_cpu_monitor_fields thrown_blocks t)
  have 4: "thrown (checkAlerts no_digits (sampled idle_tick throwing_monitor))
             = Some (StdException ''callback failed'')"
    by (simp add: thrown_checkAlerts_eq thrown_blocks sampled_throwing_monitor t)
  have 5: "monitoringIteration no_digits idle_tick throwing_monitor =
        Inr ((sampled idle_tick throwing_monitor)\<lparr>log_calls :=
               [(ERROR, ''Error in performance monitoring loop: callback failed'')]\<rparr>)"
    using monitoringLoop_survives_std_exceptions [where s = throwing_monitor
        and to_string = no_digits and t = idle_tick and what = "''callback failed''"] 4
    by (simp add: sampled_throwing_monitor)
  have 6: "\<forall>e. monitoringLoop no_digits [idle_tick, idle_tick] throwing_monitor \<noteq> Died e"
    using monitoringLoop_survives_std_exceptions [where s = throwing_monitor
        and to_string = no_digits and ts = "[idle_tick, idle_tick]"]
      throws_only_std_throwing_monitor
    by blast
  from 1 2 3 4 5 6 throws_only_std_throwing_monitor show ?thesis
    by (simp only: simp_thms)
qed

text \<open>
  Claim C7 as stated fails: the exception thrown by the latency callback leaves
  \<^verbatim>\<open>checkAlerts\<close>, and the pass does not go on as if the callback had returned, since the
  memory callback is not invoked although the memory usage is above its threshold.
\<close>

theorem checkAlerts_propagates_counterexample:
  "thrown (checkAlerts no_digits throwing_monitor) = Some (StdException ''callback failed'')
   \<and> memory_alert_callback throwing_monitor \<noteq> None
   \<and> memory_threshold_mb throwing_monitor > 0
   \<and> getMemoryUsage throwing_monitor > memory_threshold_mb throwing_monitor
   \<and> alerts_of ''MEMORY_ALERT'' (checkAlerts no_digits throwing_monitor) = []"
  by (simp add: throwing_monitor_fields checkAlerts_def checkLatencyAlert_def
      checkMemoryAlert_def checkCpuAlert_def and_then_def invoke_def no_call_def thrown_def
      throwing_callback_def returning_callback_def alerts_of_def Let_def)

end
